theory Spec2Isabelle
  imports Complex_Main "HOL-Library.Sublist"
begin

section \<open>Values\<close>

text \<open>
  The server (\<^verbatim>\<open>app.py\<close>) is three Flask request handlers, \<^verbatim>\<open>Search\<close>, \<^verbatim>\<open>API\<close> and
  \<^verbatim>\<open>Compute\<close>, over external collaborators: the catalog library
  (\<^verbatim>\<open>pulsar_table.search\<close>), astropy (\<^verbatim>\<open>SkyCoord\<close>, units), pandas (\<^verbatim>\<open>to_html\<close>), pygedm
  (\<^verbatim>\<open>dm_to_dist\<close>, \<^verbatim>\<open>dist_to_dm\<close>) and the form module (\<^verbatim>\<open>forms.py\<close>).

  A number that a request or a form gives is modelled as a real number: the exact value
  of the float, with no rounding to binary64. A float of the catalog may also be infinite
  or not a number (\<open>pyfloat\<close>). An exception that leaves a handler is the left summand of
  the handler's outcome.
\<close>

datatype pyfloat = Num real | PosInf | NegInf | NaN

datatype exn =
  ValueError string
  | TypeError string
  | UnboundLocalError string
  | UnitConversionError
  | LibraryError string

text \<open>
  An astropy quantity in powers of the degree: \<^verbatim>\<open>r * u.deg\<close> of a float \<open>r\<close> has power 1,
  and multiplying a quantity by \<^verbatim>\<open>u.deg\<close> once more raises the power of its unit. A bare
  float has power 0.
\<close>

record quantity =
  magnitude :: real
  deg_power :: nat

definition unitless :: "real \<Rightarrow> quantity" where
  "unitless r = \<lparr>magnitude = r, deg_power = 0\<rparr>"

definition times_deg :: "quantity \<Rightarrow> quantity" where
  "times_deg q = q\<lparr>deg_power := Suc (deg_power q)\<rparr>"

text \<open>
  Modelled from the spec: the table that \<^verbatim>\<open>pulsar_table.search\<close> returns is a table of the
  catalog library, of which \<^verbatim>\<open>app.py\<close> names the columns \<^verbatim>\<open>PSR\<close>, \<^verbatim>\<open>P\<close> and \<^verbatim>\<open>Distance\<close>. A
  catalog entry and a row of a search result (an entry with its separation from the query
  center) have the fields of the spec's data model (section 3): name, position, DM (which
  an entry may lack), period, distance and survey label. The period and the distance are
  floats of the table: a missing value is \<open>NaN\<close>.
\<close>

record 'c entry =
  PSR :: string
  position :: 'c
  DM :: "real option"
  P :: pyfloat
  Distance :: pyfloat
  survey :: string

record 'c row = "'c entry" +
  separation :: real

section \<open>External collaborators\<close>

text \<open>
  The calls a handler makes to the catalog search and to the electron-density model, in
  the order it makes them, with their arguments.
\<close>

datatype 'c call =
  SearchCall 'c quantity "real option" "real option" bool
  | DmToDistCall real real real string
  | DistToDmCall real real real string

text \<open>
  Everything the handlers call outside \<^verbatim>\<open>app.py\<close> is a field of the environment; \<open>'c\<close> is
  the type of sky coordinates (astropy's \<^verbatim>\<open>SkyCoord\<close>).
  \<^item> \<open>py_float\<close> is \<^verbatim>\<open>float(s)\<close> on a string: \<open>None\<close> when Python raises ValueError;
    \<open>py_str\<close> is the text of a float, as \<^verbatim>\<open>url_for\<close> and \<^verbatim>\<open>"{}".format\<close> write it.
  \<^item> \<open>SkyCoord\<close> is \<^verbatim>\<open>SkyCoord(ra * u.deg, dec * u.deg)\<close>: \<open>Inl msg\<close> is its ValueError.
  \<^item> \<open>ra_deg\<close>, \<open>dec_deg\<close>, \<open>gal_l\<close>, \<open>gal_b\<close> read a coordinate in the equatorial and in the
    galactic frame (\<^verbatim>\<open>coord.ra.deg\<close>, \<^verbatim>\<open>coord.galactic.l\<close>); \<open>hmsdms\<close>, \<open>decimal\<close> and
    \<open>decimal_signed\<close> are astropy's \<^verbatim>\<open>to_string\<close> renderings.
  \<^item> \<open>parse_equcoord_and_validate\<close> and \<open>parse_galcoord_and_validate\<close> are the parsers of
    \<^verbatim>\<open>forms.py\<close>, which return a coordinate or raise.
  \<^item> \<open>table_search\<close> is \<^verbatim>\<open>pulsar_table.search(coord, radius, DM, DM_tolerance, return_json)\<close>.
  \<^item> \<open>dm_to_dist\<close> and \<open>dist_to_dm\<close> are pygedm's conversions \<open>(l, b, x, model)\<close>, which
    return a pair.
  \<^item> \<open>Surveys\<close> is \<^verbatim>\<open>pulsarsurveyscraper.Surveys\<close>, in the order of the dictionary: each
    survey name with its URL.
  \<^item> \<open>cell_repr\<close> is pandas' default rendering of a float cell that is not missing,
    \<open>position_repr\<close> of a position cell, and \<open>table_markup\<close> its HTML markup around the
    rendered cells of the rows.
\<close>

record 'c env =
  py_float :: "string \<Rightarrow> real option"
  py_str :: "real \<Rightarrow> string"
  SkyCoord :: "real \<Rightarrow> real \<Rightarrow> string + 'c"
  ra_deg :: "'c \<Rightarrow> real"
  dec_deg :: "'c \<Rightarrow> real"
  gal_l :: "'c \<Rightarrow> real"
  gal_b :: "'c \<Rightarrow> real"
  hmsdms :: "'c \<Rightarrow> string"
  decimal :: "real \<Rightarrow> string"
  decimal_signed :: "real \<Rightarrow> string"
  parse_equcoord_and_validate :: "string \<Rightarrow> exn + 'c"
  parse_galcoord_and_validate :: "string \<Rightarrow> exn + 'c"
  table_search :: "'c \<Rightarrow> quantity \<Rightarrow> real option \<Rightarrow> real option \<Rightarrow> bool \<Rightarrow> exn + 'c row list"
  dm_to_dist :: "real \<Rightarrow> real \<Rightarrow> real \<Rightarrow> string \<Rightarrow> exn + real \<times> real"
  dist_to_dm :: "real \<Rightarrow> real \<Rightarrow> real \<Rightarrow> string \<Rightarrow> exn + real \<times> real"
  Surveys :: "(string \<times> string) list"
  cell_repr :: "pyfloat \<Rightarrow> string"
  position_repr :: "'c \<Rightarrow> string"
  table_markup :: "string list list \<Rightarrow> string"

section \<open>Responses\<close>

text \<open>
  What a handler returns to Flask: a plain string, the JSON of a search result, a
  redirect to an endpoint with its query parameters (\<^verbatim>\<open>redirect(url_for(...))\<close>), or a
  rendered template with the keyword arguments the handler passes beside the form and the
  list of surveys (\<open>None\<close> when it passes no others).
\<close>

record search_page =
  coord_string :: string
  nfound :: nat
  html_table :: string

datatype 'c response =
  Text string
  | Json "'c row list"
  | Redirect string "(string \<times> real) list"
  | RenderSearch "search_page option"
  | RenderCompute "(string \<times> string) option"

type_synonym 'c outcome = "'c call list \<times> (exn + 'c response)"

section \<open>The API route\<close>

definition quote :: string where
  "quote = [CHR 0x27]"

text \<open>
  \<^verbatim>\<open>if k in request.args: v = float(request.args[k])\<close>: the parameter when it is given,
  ValueError when it is not a number.
\<close>

definition arg_float :: "'c env \<Rightarrow> (string \<rightharpoonup> string) \<Rightarrow> string \<Rightarrow> exn + real option" where
  "arg_float env args k =
     (case args k of
        None \<Rightarrow> Inr None
      | Some s \<Rightarrow> (case py_float env s of None \<Rightarrow> Inl (ValueError s) | Some x \<Rightarrow> Inr (Some x)))"

text \<open>
  The handler \<^verbatim>\<open>API\<close>, statement by statement, in two parts: reading the parameters
  (\<open>API\<close>), then building the coordinate and searching (\<open>API_search\<close>). The default
  radius is the quantity \<^verbatim>\<open>5 * u.deg\<close>, a given radius is a float, and either is multiplied
  by \<^verbatim>\<open>u.deg\<close> in the call of the search. The default of \<open>dm\<close> is \<^verbatim>\<open>None\<close> and of
  \<open>dmtol\<close> is 10.
\<close>

definition API_search :: "'c env \<Rightarrow> real \<Rightarrow> real \<Rightarrow> quantity \<Rightarrow> real option \<Rightarrow> real \<Rightarrow> 'c outcome" where
  "API_search env ra dec radius dm dmtol =
     (case SkyCoord env ra dec of
        Inl msg \<Rightarrow>
          ([], Inr (Text (''Unable to parse RA,Dec = '' @ quote @ py_str env ra @ '','' @
                          py_str env dec @ quote @ '': '' @ msg)))
      | Inr coord \<Rightarrow>
          (case table_search env coord (times_deg radius) dm (Some dmtol) True of
             Inl e \<Rightarrow> ([SearchCall coord (times_deg radius) dm (Some dmtol) True], Inl e)
           | Inr result \<Rightarrow>
               ([SearchCall coord (times_deg radius) dm (Some dmtol) True], Inr (Json result))))"

definition API :: "'c env \<Rightarrow> (string \<rightharpoonup> string) \<Rightarrow> 'c outcome" where
  "API env args =
     (case args ''ra'' of
        None \<Rightarrow> ([], Inr (Text ''Error: no RA specified''))
      | Some s_ra \<Rightarrow>
     (case py_float env s_ra of
        None \<Rightarrow> ([], Inl (ValueError s_ra))
      | Some ra \<Rightarrow>
     (case args ''dec'' of
        None \<Rightarrow> ([], Inr (Text ''Error: no Dec specified''))
      | Some s_dec \<Rightarrow>
     (case py_float env s_dec of
        None \<Rightarrow> ([], Inl (ValueError s_dec))
      | Some dec \<Rightarrow>
     (case arg_float env args ''radius'' of
        Inl e \<Rightarrow> ([], Inl e)
      | Inr radius_arg \<Rightarrow>
     (case arg_float env args ''dm'' of
        Inl e \<Rightarrow> ([], Inl e)
      | Inr dm \<Rightarrow>
     (case arg_float env args ''dmtol'' of
        Inl e \<Rightarrow> ([], Inl e)
      | Inr dmtol_arg \<Rightarrow>
          API_search env ra dec
            (case radius_arg of None \<Rightarrow> times_deg (unitless 5) | Some r \<Rightarrow> unitless r)
            dm
            (case dmtol_arg of None \<Rightarrow> 10 | Some t \<Rightarrow> t))))))))"


text \<open>
  A parameter that is given and is not a number.
\<close>

definition unparseable :: "'c env \<Rightarrow> (string \<rightharpoonup> string) \<Rightarrow> string \<Rightarrow> bool" where
  "unparseable env args k = (case args k of None \<Rightarrow> False | Some s \<Rightarrow> py_float env s = None)"



section \<open>Text: number formatting and replacement\<close>

text \<open>
  The decimal digits of a natural number, and its last \<open>k\<close> digits with leading zeros.
\<close>

definition is_digit :: "char \<Rightarrow> bool" where
  "is_digit c = (c \<in> set ''0123456789'')"

definition digit_char :: "nat \<Rightarrow> char" where
  "digit_char d = ''0123456789'' ! (d mod 10)"

fun dec_digits :: "nat \<Rightarrow> string" where
  "dec_digits n = (if n < 10 then [digit_char n] else dec_digits (n div 10) @ [digit_char n])"

declare dec_digits.simps [simp del]

fun last_digits :: "nat \<Rightarrow> nat \<Rightarrow> string" where
  "last_digits 0 n = []"
| "last_digits (Suc k) n = last_digits k (n div 10) @ [digit_char n]"

text \<open>
  Python's \<^verbatim>\<open>"%.kf" % x\<close> and \<^verbatim>\<open>"{:.kf}".format(x)\<close> for \<open>k > 0\<close>: the sign, the integer
  part, a point and exactly \<open>k\<close> digits, the value rounded to the nearest multiple of
  \<open>10\<^sup>-\<^sup>k\<close> (a tie to the even one).
\<close>

definition round_half_even :: "real \<Rightarrow> nat" where
  "round_half_even y =
     (let f = nat \<lfloor>y\<rfloor>; d = y - real f
      in if d < 1 / 2 then f else if 1 / 2 < d then f + 1 else if even f then f else f + 1)"

definition format_f :: "nat \<Rightarrow> real \<Rightarrow> string" where
  "format_f k x =
     (let n = round_half_even (\<bar>x\<bar> * 10 ^ k)
      in (if x < 0 then ''-'' else []) @ dec_digits (n div 10 ^ k) @ ''.'' @ last_digits k n)"

text \<open>
  The number \<open>x\<close> is the exact value of the float, which Python rounds to \<open>k\<close> decimals. A
  decimal such as 2.675 is not the value of a float: the float that the literal
  \<^verbatim>\<open>2.675\<close> denotes is a little smaller, and Python prints it as 2.67, where \<open>format_f 2\<close> of
  the real number 2.675 is 2.68. For a float that is infinite or not a number the format
  writes \<^verbatim>\<open>inf\<close>, \<^verbatim>\<open>-inf\<close> or \<^verbatim>\<open>nan\<close>.
\<close>

definition percent_f :: "nat \<Rightarrow> pyfloat \<Rightarrow> string" where
  "percent_f k v =
     (case v of
        Num x \<Rightarrow> format_f k x
      | PosInf \<Rightarrow> ''inf''
      | NegInf \<Rightarrow> ''-inf''
      | NaN \<Rightarrow> ''nan'')"

text \<open>
  A text in fixed notation with two decimals: an optional minus sign, digits, a point
  and two digits.
\<close>

definition two_decimals :: "string \<Rightarrow> bool" where
  "two_decimals s =
     (let body = (if s \<noteq> [] \<and> hd s = CHR ''-'' then tl s else s); n = length body
      in 3 < n \<and> body ! (n - 3) = CHR ''.'' \<and> list_all is_digit (take (n - 3) body) \<and>
         list_all is_digit (drop (n - 2) body))"

text \<open>
  Python's \<^verbatim>\<open>s.replace(old, new)\<close>: the occurrences of \<open>old\<close> in \<open>s\<close>, found from the left
  and not overlapping, are replaced by \<open>new\<close>; an empty \<open>old\<close> puts \<open>new\<close> before every
  character and at the end.
\<close>

function str_replace :: "string \<Rightarrow> string \<Rightarrow> string \<Rightarrow> string" where
  "str_replace old new s =
     (if old = [] then new @ concat (map (\<lambda>c. c # new) s)
      else if s = [] then []
      else if prefix old s then new @ str_replace old new (drop (length old) s)
      else hd s # str_replace old new (tl s))"
  by pat_completeness auto
termination
  by (relation "measure (\<lambda>(old, new, s). length s)") auto

declare str_replace.simps [simp del]

section \<open>The Search route\<close>

text \<open>
  The fields of the forms that the handlers read. \<open>validate_on_submit\<close> is the result of
  \<^verbatim>\<open>form.validate_on_submit()\<close>; a numeric field that was left empty has the data
  \<^verbatim>\<open>None\<close>. \<^verbatim>\<open>float\<close> of a numeric field's data is the number itself.
\<close>

record form_base =
  validate_on_submit :: bool
  coordinates :: string
  clear :: bool

record SearchForm = form_base +
  radius :: real
  dm :: "real option"
  dmtol :: "real option"
  api :: bool

text \<open>
  Lines 58 to 61: the tolerance is the field \<open>dmtol\<close> when it has data, and otherwise the
  data of the field \<open>dm\<close>.
\<close>

definition DMtol_of :: "'a SearchForm_scheme \<Rightarrow> real option" where
  "DMtol_of form = (case dmtol form of Some t \<Rightarrow> Some t | None \<Rightarrow> dm form)"

text \<open>
  The redirect of the "API" button: \<^verbatim>\<open>url_for\<close> leaves out a parameter whose value is
  \<^verbatim>\<open>None\<close>.
\<close>

definition api_redirect :: "'c env \<Rightarrow> 'a SearchForm_scheme \<Rightarrow> 'c \<Rightarrow> 'c response" where
  "api_redirect env form coord =
     (case dm form of
        None \<Rightarrow>
          Redirect ''API''
            [(''ra'', ra_deg env coord), (''dec'', dec_deg env coord), (''radius'', radius form)]
      | Some d \<Rightarrow>
          Redirect ''API''
            ([(''ra'', ra_deg env coord), (''dec'', dec_deg env coord), (''radius'', radius form),
              (''dm'', d)] @
             (case DMtol_of form of None \<Rightarrow> [] | Some t \<Rightarrow> [(''dmtol'', t)])))"

text \<open>
  The table: \<^verbatim>\<open>df.to_html(formatters={"P": ..., "Distance": ...})\<close> renders a missing value
  (\<open>NaN\<close>) of a float column as \<^verbatim>\<open>NaN\<close>, any other cell of a column that has a formatter
  with the formatter, and a cell of another column by default; then, for each survey in
  turn, the survey's name is replaced by a link in the whole text.
\<close>

definition na_rep :: string where
  "na_rep = ''NaN''"

definition formatters :: "string \<rightharpoonup> (pyfloat \<Rightarrow> string)" where
  "formatters = [''P'' \<mapsto> percent_f 2, ''Distance'' \<mapsto> percent_f 2]"

definition column_cell :: "'c env \<Rightarrow> string \<Rightarrow> pyfloat \<Rightarrow> string" where
  "column_cell env col v =
     (if v = NaN then na_rep
      else case formatters col of Some f \<Rightarrow> f v | None \<Rightarrow> cell_repr env v)"

definition columns :: "string list" where
  "columns = [''PSR'', ''position'', ''DM'', ''P'', ''Distance'', ''separation'', ''survey'']"

definition cell :: "'c env \<Rightarrow> 'c row \<Rightarrow> string \<Rightarrow> string" where
  "cell env r col =
     (if col = ''PSR'' then PSR r
      else if col = ''position'' then position_repr env (position r)
      else if col = ''DM'' then
        column_cell env col (case DM r of None \<Rightarrow> NaN | Some d \<Rightarrow> Num d)
      else if col = ''P'' then column_cell env col (P r)
      else if col = ''Distance'' then column_cell env col (Distance r)
      else if col = ''separation'' then column_cell env col (Num (separation r))
      else survey r)"

definition row_cells :: "'c env \<Rightarrow> 'c row \<Rightarrow> string list" where
  "row_cells env r = map (cell env r) columns"

definition to_html :: "'c env \<Rightarrow> 'c row list \<Rightarrow> string" where
  "to_html env result = table_markup env (map (row_cells env) result)"

definition survey_link :: "string \<Rightarrow> string \<Rightarrow> string" where
  "survey_link url name = ''<a href='' @ quote @ url @ quote @ ''>'' @ name @ ''</a>''"

fun link_surveys :: "(string \<times> string) list \<Rightarrow> string \<Rightarrow> string" where
  "link_surveys [] html = html"
| "link_surveys ((name, url) # rest) html =
     link_surveys rest (str_replace name (survey_link url name) html)"

text \<open>
  A table text in pieces: the survey cells, and the text between them (the markup and the
  other cells). An occurrence of a name straddles the end of a piece when it starts in
  the piece and ends after it. The pieces are separable for a list of surveys when, as
  each survey's name is replaced in turn, no occurrence of it straddles the end of a
  piece. A survey cell can be linked when no earlier survey's name occurs in it and no
  later survey's name occurs in the link that replaces it; a piece of other text is
  free of names when no survey's name occurs in it.
\<close>

datatype piece = Other string | SurveyCell string

definition piece_text :: "piece \<Rightarrow> string" where
  "piece_text p = (case p of Other t \<Rightarrow> t | SurveyCell c \<Rightarrow> c)"

definition linked_piece :: "(string \<times> string) list \<Rightarrow> piece \<Rightarrow> string" where
  "linked_piece surveys p =
     (case p of
        Other t \<Rightarrow> t
      | SurveyCell c \<Rightarrow> (case map_of surveys c of None \<Rightarrow> c | Some url \<Rightarrow> survey_link url c))"

fun straddles :: "string \<Rightarrow> string \<Rightarrow> string \<Rightarrow> bool" where
  "straddles name [] b = False"
| "straddles name (c # a) b =
     ((prefix name (c # a @ b) \<and> length (c # a) < length name) \<or> straddles name a b)"

fun no_straddle :: "string \<Rightarrow> string list \<Rightarrow> bool" where
  "no_straddle name [] = True"
| "no_straddle name (s # rest) = (\<not> straddles name s (concat rest) \<and> no_straddle name rest)"

fun separable :: "(string \<times> string) list \<Rightarrow> string list \<Rightarrow> bool" where
  "separable [] segs = True"
| "separable ((name, url) # rest) segs =
     (name \<noteq> [] \<and> no_straddle name segs \<and>
      separable rest (map (str_replace name (survey_link url name)) segs))"

definition free_of_names :: "(string \<times> string) list \<Rightarrow> string \<Rightarrow> bool" where
  "free_of_names surveys t = list_all (\<lambda>s. fst s \<noteq> [] \<and> \<not> sublist (fst s) t) surveys"

fun linkable :: "(string \<times> string) list \<Rightarrow> string \<Rightarrow> bool" where
  "linkable [] c = True"
| "linkable ((name, url) # rest) c =
     (name \<noteq> [] \<and>
      (if c = name then free_of_names rest (survey_link url name)
       else \<not> sublist name c \<and> linkable rest c))"

definition piece_ok :: "(string \<times> string) list \<Rightarrow> piece \<Rightarrow> bool" where
  "piece_ok surveys p =
     (case p of Other t \<Rightarrow> free_of_names surveys t | SurveyCell c \<Rightarrow> linkable surveys c)"

definition survey_cells :: "piece list \<Rightarrow> string list" where
  "survey_cells pieces = concat (map (\<lambda>p. case p of Other t \<Rightarrow> [] | SurveyCell c \<Rightarrow> [c]) pieces)"

text \<open>
  The handler \<^verbatim>\<open>Search\<close>: \<open>Search_result\<close> is the variable \<^verbatim>\<open>result\<close> of line 95,
  \<open>Search_table\<close> the path from the search to the rendered page, \<open>Search\<close> the whole
  handler.
\<close>

definition Search_result :: "'c env \<Rightarrow> 'a SearchForm_scheme \<Rightarrow> 'c \<Rightarrow> exn + 'c row list" where
  "Search_result env form coord =
     table_search env coord (times_deg (unitless (radius form))) (dm form) (DMtol_of form) False"

definition Search_coord_string :: "'c env \<Rightarrow> 'a SearchForm_scheme \<Rightarrow> 'c \<Rightarrow> exn + string" where
  "Search_coord_string env form coord =
     (let s = ''Searching '' @ format_f 1 (radius form) @ ''deg around RA,Dec '' @
              hmsdms env coord @ '' = '' @ decimal env (ra_deg env coord) @ ''d,'' @
              decimal_signed env (dec_deg env coord) @ ''d ...''
      in case dm form of
           None \<Rightarrow> Inr s
         | Some d \<Rightarrow>
             (case DMtol_of form of
                None \<Rightarrow> Inl (TypeError ''unsupported format string passed to NoneType.__format__'')
              | Some t \<Rightarrow>
                  Inr (s @ ''<br>Also requiring DM with +/-'' @ format_f 1 t @ '' of '' @
                       format_f 1 d @ '' pc/cm**2'')))"

definition Search_table :: "'c env \<Rightarrow> 'a SearchForm_scheme \<Rightarrow> 'c \<Rightarrow> 'c outcome" where
  "Search_table env form coord =
     (let c = SearchCall coord (times_deg (unitless (radius form))) (dm form) (DMtol_of form) False
      in case Search_result env form coord of
           Inl e \<Rightarrow> ([c], Inl e)
         | Inr result \<Rightarrow>
             (case Search_coord_string env form coord of
                Inl e \<Rightarrow> ([c], Inl e)
              | Inr cs \<Rightarrow>
                  ([c], Inr (RenderSearch (Some
                     \<lparr>coord_string = cs,
                      nfound = length result,
                      html_table = link_surveys (Surveys env) (to_html env result)\<rparr>)))))"

definition Search :: "'c env \<Rightarrow> 'a SearchForm_scheme \<Rightarrow> 'c outcome" where
  "Search env form =
     (if validate_on_submit form then
        (case parse_equcoord_and_validate env (coordinates form) of
           Inl e \<Rightarrow> ([], Inl e)
         | Inr coord \<Rightarrow>
             if api form then ([], Inr (api_redirect env form coord))
             else if clear form then ([], Inr (Redirect ''Search'' []))
             else Search_table env form coord)
      else if clear form then ([], Inr (Redirect ''Search'' []))
      else ([], Inr (RenderSearch None)))"


section \<open>The Compute route\<close>

record DMForm = form_base +
  lb_or_radec_selector :: string
  d_or_dm_selector :: string
  d_or_dm :: real
  model_selector :: string
  model_choices :: "(string \<times> string) list"

text \<open>
  Lines 203 to 206: the coordinate is parsed in the selected frame; with any other
  selector the variable \<^verbatim>\<open>coord\<close> stays unbound (\<open>None\<close>).
\<close>

definition Compute_coord :: "'c env \<Rightarrow> 'a DMForm_scheme \<Rightarrow> exn + 'c option" where
  "Compute_coord env form =
     (if lb_or_radec_selector form = ''equatorial'' then
        (case parse_equcoord_and_validate env (coordinates form) of
           Inl e \<Rightarrow> Inl e
         | Inr c \<Rightarrow> Inr (Some c))
      else if lb_or_radec_selector form = ''galactic'' then
        (case parse_galcoord_and_validate env (coordinates form) of
           Inl e \<Rightarrow> Inl e
         | Inr c \<Rightarrow> Inr (Some c))
      else Inr None)"

text \<open>
  Lines 207 to 219: the conversion, which yields the pair \<open>(DM, distance)\<close>; the second
  component of the library's result is bound to \<^verbatim>\<open>_\<close> and dropped. With any other solve
  selector both variables stay unbound.
\<close>

definition Compute_convert ::
  "'c env \<Rightarrow> 'a DMForm_scheme \<Rightarrow> 'c option \<Rightarrow> 'c call list \<times> (exn + (real \<times> real) option)" where
  "Compute_convert env form coord =
     (if d_or_dm_selector form = ''dm'' then
        (case coord of
           None \<Rightarrow> ([], Inl (UnboundLocalError ''coord''))
         | Some c \<Rightarrow>
             (case dm_to_dist env (gal_l env c) (gal_b env c) (d_or_dm form) (model_selector form) of
                Inl e \<Rightarrow>
                  ([DmToDistCall (gal_l env c) (gal_b env c) (d_or_dm form) (model_selector form)],
                   Inl e)
              | Inr res \<Rightarrow>
                  ([DmToDistCall (gal_l env c) (gal_b env c) (d_or_dm form) (model_selector form)],
                   Inr (Some (d_or_dm form, fst res)))))
      else if d_or_dm_selector form = ''distance'' then
        (case coord of
           None \<Rightarrow> ([], Inl (UnboundLocalError ''coord''))
         | Some c \<Rightarrow>
             (case dist_to_dm env (gal_l env c) (gal_b env c) (d_or_dm form) (model_selector form) of
                Inl e \<Rightarrow>
                  ([DistToDmCall (gal_l env c) (gal_b env c) (d_or_dm form) (model_selector form)],
                   Inl e)
              | Inr res \<Rightarrow>
                  ([DistToDmCall (gal_l env c) (gal_b env c) (d_or_dm form) (model_selector form)],
                   Inr (Some (fst res, d_or_dm form)))))
      else ([], Inr None))"

definition Compute_coord_string :: "'c env \<Rightarrow> 'a DMForm_scheme \<Rightarrow> 'c option \<Rightarrow> exn + string" where
  "Compute_coord_string env form coord =
     (case coord of
        None \<Rightarrow> Inl (UnboundLocalError ''coord'')
      | Some c \<Rightarrow>
          Inr (if lb_or_radec_selector form = ''equatorial'' then
                 ''Computing for RA,Dec '' @ hmsdms env c @ '' = '' @ decimal env (ra_deg env c) @
                 ''d,'' @ decimal_signed env (dec_deg env c) @ ''d'' @
                 ''<br>= l,b = '' @ decimal env (gal_l env c) @ ''d,'' @
                 decimal env (gal_b env c) @ ''d ...''
               else
                 ''Computing for l,b = '' @ decimal env (gal_l env c) @ ''d,'' @
                 decimal env (gal_b env c) @ ''d ...'' @
                 ''<br>= RA,Dec '' @ hmsdms env c @ '' = '' @ decimal env (ra_deg env c) @
                 ''d,'' @ decimal_signed env (dec_deg env c) @ ''d''))"

text \<open>
  Lines 251 to 253: the loop leaves \<^verbatim>\<open>model_label\<close> at the label of the first choice that
  is the selected model, or of the last choice when none is; it is unbound when there is
  no choice.
\<close>

fun model_label_of :: "(string \<times> string) list \<Rightarrow> string \<Rightarrow> string option" where
  "model_label_of [] selected = None"
| "model_label_of ((model, model_label) # rest) selected =
     (if model = selected \<or> rest = [] then Some model_label else model_label_of rest selected)"

definition Compute_result_string :: "'a DMForm_scheme \<Rightarrow> (real \<times> real) option \<Rightarrow> exn + string" where
  "Compute_result_string form vals =
     (if d_or_dm_selector form = ''dm'' then
        (case vals of
           None \<Rightarrow> Inl (UnboundLocalError ''DM'')
         | Some v \<Rightarrow>
             Inr (''For DM = '' @ format_f 1 (fst v) @ '' pc/cc, find distance = '' @
                  format_f 1 (snd v) @ '' pc''))
      else if d_or_dm_selector form = ''distance'' then
        (case model_label_of (model_choices form) (model_selector form) of
           None \<Rightarrow> Inl (UnboundLocalError ''model_label'')
         | Some model_label \<Rightarrow>
             (case vals of
                None \<Rightarrow> Inl (UnboundLocalError ''distance'')
              | Some v \<Rightarrow>
                  Inr (''For distance = '' @ format_f 1 (snd v) @ '' pc, find DM = '' @
                       format_f 1 (fst v) @ '' pc/cc with the '' @ model_label @ '' model'')))
      else Inl (UnboundLocalError ''result_string''))"

definition Compute_page ::
  "'c env \<Rightarrow> 'a DMForm_scheme \<Rightarrow> 'c option \<Rightarrow> (real \<times> real) option \<Rightarrow> exn + 'c response" where
  "Compute_page env form coord vals =
     (case Compute_coord_string env form coord of
        Inl e \<Rightarrow> Inl e
      | Inr cs \<Rightarrow>
          (case Compute_result_string form vals of
             Inl e \<Rightarrow> Inl e
           | Inr rs \<Rightarrow> Inr (RenderCompute (Some (cs, rs)))))"

definition Compute :: "'c env \<Rightarrow> 'a DMForm_scheme \<Rightarrow> 'c outcome" where
  "Compute env form =
     (if validate_on_submit form then
        (case Compute_coord env form of
           Inl e \<Rightarrow> ([], Inl e)
         | Inr coord \<Rightarrow>
             (case snd (Compute_convert env form coord) of
                Inl e \<Rightarrow> (fst (Compute_convert env form coord), Inl e)
              | Inr vals \<Rightarrow>
                  if clear form then
                    (fst (Compute_convert env form coord), Inr (Redirect ''Compute'' []))
                  else (fst (Compute_convert env form coord), Compute_page env form coord vals)))
      else if clear form then ([], Inr (Redirect ''Compute'' []))
      else ([], Inr (RenderCompute None)))"

section \<open>The Matcher\<close>

text \<open>
  Modelled from the spec: the Matcher over the Catalog Store (sections 3, 4.2 and 4.3), which
  the handlers call as \<^verbatim>\<open>pulsar_table.search\<close> and which is part of the catalog library, not
  of \<^verbatim>\<open>app.py\<close> (\<open>annotate\<close>, \<open>entries_within\<close>, \<open>dm_in_window\<close> and \<open>matcher\<close>). Every entry of the catalog is annotated with its angular separation \<open>sep\<close>
  from the center; an entry is included iff its separation is at most the radius; with a
  DM window an entry must also have a DM with \<open>\<bar>DM - center\<bar> \<le> tolerance\<close>; the result is
  in ascending order of separation, entries of equal separation in catalog order. The
  radius of a query is an angle: a quantity in another unit than the degree is refused, and
  so is a DM window without a tolerance.
\<close>

definition annotate :: "('c \<Rightarrow> 'c \<Rightarrow> real) \<Rightarrow> 'c \<Rightarrow> 'c entry \<Rightarrow> 'c row" where
  "annotate sep center e =
     \<lparr>PSR = PSR e, position = position e, DM = DM e, P = P e, Distance = Distance e,
      survey = survey e, separation = sep center (position e)\<rparr>"

definition entries_within :: "('c \<Rightarrow> 'c \<Rightarrow> real) \<Rightarrow> 'c entry list \<Rightarrow> 'c \<Rightarrow> real \<Rightarrow> 'c row list" where
  "entries_within sep catalog center R =
     sort_key separation (filter (\<lambda>r. separation r \<le> R) (map (annotate sep center) catalog))"

definition dm_in_window :: "real \<Rightarrow> real \<Rightarrow> 'c row \<Rightarrow> bool" where
  "dm_in_window d t r = (case DM r of None \<Rightarrow> False | Some x \<Rightarrow> \<bar>x - d\<bar> \<le> t)"

definition matcher ::
  "('c \<Rightarrow> 'c \<Rightarrow> real) \<Rightarrow> 'c entry list \<Rightarrow>
   'c \<Rightarrow> quantity \<Rightarrow> real option \<Rightarrow> real option \<Rightarrow> bool \<Rightarrow> exn + 'c row list" where
  "matcher sep catalog center r DM_center DM_tolerance return_json =
     (if deg_power r \<noteq> 1 then Inl UnitConversionError
      else
        (case DM_center of
           None \<Rightarrow> Inr (entries_within sep catalog center (magnitude r))
         | Some d \<Rightarrow>
             (case DM_tolerance of
                None \<Rightarrow> Inl (TypeError ''DM window without a tolerance'')
              | Some t \<Rightarrow>
                  Inr (filter (dm_in_window d t)
                         (entries_within sep catalog center (magnitude r))))))"


section \<open>An example environment\<close>

text \<open>
  A concrete environment, on which the handlers can be run: coordinates are pairs
  \<open>(ra, dec)\<close> in degrees, and the catalog search is the Matcher over a catalog of four
  entries, one of which a survey has named after itself, and one of which has no known
  period. Its \<open>example_float\<close> reads decimal literals only (\<^verbatim>\<open>-12.5\<close>), a part of what
  \<^verbatim>\<open>float\<close> accepts, and \<open>example_str\<close> writes two decimals. The separation, the galactic
  frame and the electron-density model are simple stand-ins for the libraries'; the
  theorems below hold for every environment.
\<close>

definition digits_value :: "string \<Rightarrow> nat" where
  "digits_value ds = foldl (\<lambda>n c. 10 * n + (of_char c - 48)) 0 ds"

definition unsigned_float :: "string \<Rightarrow> real option" where
  "unsigned_float s =
     (let ip = takeWhile is_digit s; rest = dropWhile is_digit s
      in if ip = [] then None
         else if rest = [] then Some (real (digits_value ip))
         else if hd rest = CHR ''.'' \<and> tl rest \<noteq> [] \<and> list_all is_digit (tl rest) then
           Some (real (digits_value ip) + real (digits_value (tl rest)) / 10 ^ length (tl rest))
         else None)"

definition example_float :: "string \<Rightarrow> real option" where
  "example_float s =
     (if s \<noteq> [] \<and> hd s = CHR ''-'' then map_option uminus (unsigned_float (tl s))
      else unsigned_float s)"

definition example_str :: "real \<Rightarrow> string" where
  "example_str x = format_f 2 x"

definition example_SkyCoord :: "real \<Rightarrow> real \<Rightarrow> string + real \<times> real" where
  "example_SkyCoord ra dec =
     (if - 90 \<le> dec \<and> dec \<le> 90 then Inr (ra, dec)
      else Inl ''Latitude angle(s) must be within -90 deg <= angle <= 90 deg'')"

definition example_parse :: "string \<Rightarrow> exn + real \<times> real" where
  "example_parse s =
     (let a = takeWhile (\<lambda>c. c \<noteq> CHR '' '') s; b = drop (Suc (length a)) s
      in case example_float a of
           None \<Rightarrow> Inl (LibraryError ''Unable to parse the coordinates'')
         | Some x \<Rightarrow>
             (case example_float b of
                None \<Rightarrow> Inl (LibraryError ''Unable to parse the coordinates'')
              | Some y \<Rightarrow>
                  (case example_SkyCoord x y of
                     Inl msg \<Rightarrow> Inl (LibraryError msg)
                   | Inr c \<Rightarrow> Inr c)))"

definition example_separation :: "real \<times> real \<Rightarrow> real \<times> real \<Rightarrow> real" where
  "example_separation a b = \<bar>fst a - fst b\<bar> + \<bar>snd a - snd b\<bar>"

definition example_catalog :: "(real \<times> real) entry list" where
  "example_catalog =
     [\<lparr>PSR = ''J0437-4715'', position = (69.32, - 47.25), DM = Some 2.64, P = Num 5.757,
       Distance = Num 156.8, survey = ''ATNF''\<rparr>,
      \<lparr>PSR = ''J0534+2200'', position = (83.63, 22.01), DM = Some 56.77, P = Num 33.392,
       Distance = Num 2000, survey = ''ATNF''\<rparr>,
      \<lparr>PSR = ''GBNCC J0540+23'', position = (85.25, 23.5), DM = None, P = Num 245.97,
       Distance = Num 1565.1, survey = ''GBNCC''\<rparr>,
      \<lparr>PSR = ''J1850+15'', position = (282.5, 15.25), DM = Some 24.5, P = NaN,
       Distance = Num 1250, survey = ''ATNF''\<rparr>]"

definition example_markup :: "string list list \<Rightarrow> string" where
  "example_markup rows =
     ''<table>'' @
     concat (map (\<lambda>cells. ''<tr>'' @ concat (map (\<lambda>c. ''<td>'' @ c @ ''</td>'') cells) @ ''</tr>'')
               rows) @
     ''</table>''"

definition example_model :: "real \<Rightarrow> real \<Rightarrow> real \<Rightarrow> real \<Rightarrow> string \<Rightarrow> exn + real \<times> real" where
  "example_model second l b x name =
     (if name = ''ymw16'' then Inr (30 * x, second)
      else if name = ''ne2001'' then Inr (35 * x, second)
      else Inl (LibraryError ''unknown model''))"

definition example_env :: "(real \<times> real) env" where
  "example_env =
     \<lparr>py_float = example_float,
      py_str = example_str,
      SkyCoord = example_SkyCoord,
      ra_deg = fst,
      dec_deg = snd,
      gal_l = fst,
      gal_b = snd,
      hmsdms = (\<lambda>c. example_str (fst c) @ '' '' @ example_str (snd c)),
      decimal = example_str,
      decimal_signed = (\<lambda>x. (if 0 \<le> x then ''+'' else []) @ example_str x),
      parse_equcoord_and_validate = example_parse,
      parse_galcoord_and_validate = example_parse,
      table_search = matcher example_separation example_catalog,
      dm_to_dist = example_model 0,
      dist_to_dm = example_model 0,
      Surveys = [(''GBNCC'', ''http://astro.phys.wvu.edu/GBNCC/''),
                 (''ATNF'', ''https://www.atnf.csiro.au/research/pulsar/psrcat/'')],
      cell_repr = (\<lambda>v. case v of Num x \<Rightarrow> format_f 6 x | PosInf \<Rightarrow> ''inf''
                        | NegInf \<Rightarrow> ''-inf'' | NaN \<Rightarrow> ''NaN''),
      position_repr = (\<lambda>c. example_str (fst c) @ '' '' @ example_str (snd c)),
      table_markup = example_markup\<rparr>"

text \<open>
  The submissions, the catalog row and the page that the examples below use.
\<close>

abbreviation crab_form :: SearchForm where
  "crab_form \<equiv>
     \<lparr>validate_on_submit = True, coordinates = ''83.63 22.01'', clear = False, radius = 3,
      dm = Some 50, dmtol = None, api = False\<rparr>"

abbreviation crab_api_form :: SearchForm where
  "crab_api_form \<equiv>
     \<lparr>validate_on_submit = True, coordinates = ''83.63 22.01'', clear = False, radius = 3,
      dm = Some 50, dmtol = None, api = True\<rparr>"

abbreviation crab_clear_form :: SearchForm where
  "crab_clear_form \<equiv>
     \<lparr>validate_on_submit = True, coordinates = ''83.63 22.01'', clear = True, radius = 3,
      dm = None, dmtol = None, api = False\<rparr>"

abbreviation gbncc_form :: SearchForm where
  "gbncc_form \<equiv>
     \<lparr>validate_on_submit = True, coordinates = ''85.25 23.50'', clear = False, radius = 1,
      dm = None, dmtol = None, api = False\<rparr>"

abbreviation gbncc_row :: "(real \<times> real) row" where
  "gbncc_row \<equiv>
     \<lparr>PSR = ''GBNCC J0540+23'', position = (85.25, 23.5), DM = None, P = Num 245.97,
      Distance = Num 1565.1, survey = ''GBNCC'', separation = 0\<rparr>"

abbreviation rrat_form :: SearchForm where
  "rrat_form \<equiv>
     \<lparr>validate_on_submit = True, coordinates = ''282.50 15.25'', clear = False, radius = 1,
      dm = None, dmtol = None, api = False\<rparr>"

abbreviation rrat_row :: "(real \<times> real) row" where
  "rrat_row \<equiv>
     \<lparr>PSR = ''J1850+15'', position = (282.5, 15.25), DM = Some 24.5, P = NaN,
      Distance = Num 1250, survey = ''ATNF'', separation = 0\<rparr>"

abbreviation rrat_page :: search_page where
  "rrat_page \<equiv>
     \<lparr>coord_string = ''Searching 1.0deg around RA,Dec 282.50 15.25 = 282.50d,+15.25d ...'',
      nfound = 1,
      html_table =
        example_markup
          [[''J1850+15'', ''282.50 15.25'', ''24.500000'', ''NaN'', ''1250.00'', ''0.000000'',
            survey_link ''https://www.atnf.csiro.au/research/pulsar/psrcat/'' ''ATNF'']]\<rparr>"

abbreviation rrat_pieces :: "piece list" where
  "rrat_pieces \<equiv>
     [Other (''<table><tr><td>J1850+15</td><td>282.50 15.25</td><td>24.500000</td>'' @
             ''<td>NaN</td><td>1250.00</td><td>0.000000</td><td>''),
      SurveyCell ''ATNF'',
      Other ''</td></tr></table>'']"

abbreviation gbncc_page :: search_page where
  "gbncc_page \<equiv>
     \<lparr>coord_string = ''Searching 1.0deg around RA,Dec 85.25 23.50 = 85.25d,+23.50d ...'',
      nfound = 1,
      html_table =
        example_markup
          [[survey_link ''http://astro.phys.wvu.edu/GBNCC/'' ''GBNCC'' @ '' J0540+23'',
            ''85.25 23.50'', ''NaN'', ''245.97'', ''1565.10'', ''0.000000'',
            survey_link ''http://astro.phys.wvu.edu/GBNCC/'' ''GBNCC'']]\<rparr>"

abbreviation dm_form :: DMForm where
  "dm_form \<equiv>
     \<lparr>validate_on_submit = True, coordinates = ''83.63 22.01'', clear = False,
      lb_or_radec_selector = ''equatorial'', d_or_dm_selector = ''dm'', d_or_dm = 56.77,
      model_selector = ''ymw16'',
      model_choices = [(''ne2001'', ''NE2001''), (''ymw16'', ''YMW16'')]\<rparr>"

abbreviation dm_clear_form :: DMForm where
  "dm_clear_form \<equiv>
     \<lparr>validate_on_submit = True, coordinates = ''83.63 22.01'', clear = True,
      lb_or_radec_selector = ''equatorial'', d_or_dm_selector = ''dm'', d_or_dm = 56.77,
      model_selector = ''ymw16'',
      model_choices = [(''ne2001'', ''NE2001''), (''ymw16'', ''YMW16'')]\<rparr>"

abbreviation distance_form :: DMForm where
  "distance_form \<equiv>
     \<lparr>validate_on_submit = True, coordinates = ''83.63 22.01'', clear = False,
      lb_or_radec_selector = ''galactic'', d_or_dm_selector = ''distance'', d_or_dm = 2000,
      model_selector = ''ne2001'',
      model_choices = [(''ne2001'', ''NE2001''), (''ymw16'', ''YMW16'')]\<rparr>"

abbreviation distance_clear_form :: DMForm where
  "distance_clear_form \<equiv>
     \<lparr>validate_on_submit = True, coordinates = ''83.63 22.01'', clear = True,
      lb_or_radec_selector = ''galactic'', d_or_dm_selector = ''distance'', d_or_dm = 2000,
      model_selector = ''ne2001'',
      model_choices = [(''ne2001'', ''NE2001''), (''ymw16'', ''YMW16'')]\<rparr>"

section \<open>Evaluating the example environment\<close>

lemma example_float_abc: "example_float ''abc'' = None"
  by (simp add: example_float_def unsigned_float_def is_digit_def)

lemma example_float_ra: "example_float ''83.63'' = Some 83.63"
  by (simp add: example_float_def unsigned_float_def is_digit_def digits_value_def)

lemma example_float_dec: "example_float ''22.01'' = Some 22.01"
  by (simp add: example_float_def unsigned_float_def is_digit_def digits_value_def)

lemma example_float_3: "example_float ''3.00'' = Some 3"
  by (simp add: example_float_def unsigned_float_def is_digit_def digits_value_def)

lemma example_float_big_dec: "example_float ''122.01'' = Some 122.01"
  by (simp add: example_float_def unsigned_float_def is_digit_def digits_value_def)

section \<open>The API route: missing and malformed parameters\<close>

text \<open>
  Claim C2, as amended. A request to the API route without \<open>ra\<close> is answered with the
  message "Error: no RA specified"; a request without \<open>dec\<close> whose \<open>ra\<close> is given and is a
  number is answered with "Error: no Dec specified"; and whenever \<open>ra\<close> or \<open>dec\<close> is
  missing, the handler makes no call of the catalog search.
\<close>

theorem API_missing_parameter:
  "(args ''ra'' = None \<longrightarrow> API env args = ([], Inr (Text ''Error: no RA specified''))) \<and>
   (args ''ra'' = Some s \<and> py_float env s = Some x \<and> args ''dec'' = None \<longrightarrow>
      API env args = ([], Inr (Text ''Error: no Dec specified''))) \<and>
   (args ''ra'' = None \<or> args ''dec'' = None \<longrightarrow> fst (API env args) = [])"
  by (auto simp: API_def split: option.splits)

theorem API_missing_parameter_witness:
  "API example_env Map.empty = ([], Inr (Text ''Error: no RA specified'')) \<and>
   API example_env [''ra'' \<mapsto> ''83.63''] = ([], Inr (Text ''Error: no Dec specified'')) \<and>
   fst (API example_env [''ra'' \<mapsto> ''abc'']) = []"
  using API_missing_parameter [where args = Map.empty and env = example_env]
    API_missing_parameter [where args = "[''ra'' \<mapsto> ''83.63'']" and env = example_env
      and s = "''83.63''" and x = "83.63"]
    API_missing_parameter [where args = "[''ra'' \<mapsto> ''abc'']" and env = example_env]
  by (simp add: example_env_def example_float_ra)

text \<open>
  The claim as it was stated fails where \<open>dec\<close> is missing and \<open>ra\<close> is not a number:
  \<^verbatim>\<open>float(request.args["ra"])\<close> raises before the handler looks for \<open>dec\<close>, and no message
  is returned.
\<close>

theorem API_missing_dec_counterexample:
  "[''ra'' \<mapsto> ''abc''] ''dec'' = None \<and>
   API example_env [''ra'' \<mapsto> ''abc''] = ([], Inl (ValueError ''abc''))"
  by (simp add: API_def example_env_def example_float_abc)

lemma arg_float_unparseable:
  "unparseable env args k \<Longrightarrow> \<exists>s. arg_float env args k = Inl (ValueError s) \<and> args k = Some s \<and> py_float env s = None"
  by (auto simp: unparseable_def arg_float_def split: option.splits)

lemma arg_float_parseable:
  "\<not> unparseable env args k \<Longrightarrow> \<exists>v. arg_float env args k = Inr v"
  by (auto simp: unparseable_def arg_float_def split: option.splits)

text \<open>
  Claim C5, as amended. In a request to the API route whose \<open>ra\<close> and \<open>dec\<close> are given and
  are numbers: when \<open>radius\<close>, \<open>dm\<close> or \<open>dmtol\<close> is given and is not a number, the handler
  fails with the ValueError of \<^verbatim>\<open>float\<close>, which carries the text that was given, before any
  call of the catalog search, and returns no message; when all three are numbers or
  missing and building the coordinate raises a ValueError, the handler returns a message
  that echoes \<open>ra\<close> and \<open>dec\<close> and the error.
\<close>

theorem API_malformed_number:
  assumes "args ''ra'' = Some s_ra" and "py_float env s_ra = Some ra"
    and "args ''dec'' = Some s_dec" and "py_float env s_dec = Some dec"
  shows "(unparseable env args ''radius'' \<or> unparseable env args ''dm'' \<or>
          unparseable env args ''dmtol'' \<longrightarrow>
            (\<exists>s. API env args = ([], Inl (ValueError s)) \<and> py_float env s = None \<and>
                 Some s \<in> {args ''radius'', args ''dm'', args ''dmtol''})) \<and>
         (\<not> unparseable env args ''radius'' \<and> \<not> unparseable env args ''dm'' \<and>
          \<not> unparseable env args ''dmtol'' \<and> SkyCoord env ra dec = Inl msg \<longrightarrow>
            API env args =
              ([], Inr (Text (''Unable to parse RA,Dec = '' @ quote @ py_str env ra @ '','' @
                              py_str env dec @ quote @ '': '' @ msg))))"
proof (intro conjI impI)
  assume bad: "unparseable env args ''radius'' \<or> unparseable env args ''dm'' \<or>
          unparseable env args ''dmtol''"
  show "\<exists>s. API env args = ([], Inl (ValueError s)) \<and> py_float env s = None \<and>
                 Some s \<in> {args ''radius'', args ''dm'', args ''dmtol''}"
  proof (cases "unparseable env args ''radius''")
    case True
    then obtain s where "arg_float env args ''radius'' = Inl (ValueError s)"
      "args ''radius'' = Some s" "py_float env s = None"
      using arg_float_unparseable by blast
    then show ?thesis using assms by (simp add: API_def)
  next
    case r: False
    then obtain rv where rv: "arg_float env args ''radius'' = Inr rv"
      using arg_float_parseable by blast
    show ?thesis
    proof (cases "unparseable env args ''dm''")
      case True
      then obtain s where "arg_float env args ''dm'' = Inl (ValueError s)"
        "args ''dm'' = Some s" "py_float env s = None"
        using arg_float_unparseable by blast
      then show ?thesis using assms rv by (simp add: API_def)
    next
      case d: False
      then obtain dv where dv: "arg_float env args ''dm'' = Inr dv"
        using arg_float_parseable by blast
      from bad r d have "unparseable env args ''dmtol''" by simp
      then obtain s where "arg_float env args ''dmtol'' = Inl (ValueError s)"
        "args ''dmtol'' = Some s" "py_float env s = None"
        using arg_float_unparseable by blast
      then show ?thesis using assms rv dv by (simp add: API_def)
    qed
  qed
next
  assume ok: "\<not> unparseable env args ''radius'' \<and> \<not> unparseable env args ''dm'' \<and>
          \<not> unparseable env args ''dmtol'' \<and> SkyCoord env ra dec = Inl msg"
  then obtain rv dv tv where "arg_float env args ''radius'' = Inr rv"
    "arg_float env args ''dm'' = Inr dv" "arg_float env args ''dmtol'' = Inr tv"
    using arg_float_parseable [of env args "''radius''"] arg_float_parseable [of env args "''dm''"]
      arg_float_parseable [of env args "''dmtol''"]
    by auto
  with ok assms show "API env args =
              ([], Inr (Text (''Unable to parse RA,Dec = '' @ quote @ py_str env ra @ '','' @
                              py_str env dec @ quote @ '': '' @ msg)))"
    by (simp add: API_def API_search_def)
qed

theorem API_malformed_number_witness:
  "(\<exists>s. API example_env [''ra'' \<mapsto> ''83.63'', ''dec'' \<mapsto> ''22.01'', ''dm'' \<mapsto> ''abc''] =
        ([], Inl (ValueError s))) \<and>
   API example_env [''ra'' \<mapsto> ''83.63'', ''dec'' \<mapsto> ''122.01''] =
     ([], Inr (Text (''Unable to parse RA,Dec = '' @ quote @ example_str 83.63 @ '','' @
                     example_str 122.01 @ quote @
                     '': Latitude angle(s) must be within -90 deg <= angle <= 90 deg'')))"
  using API_malformed_number [where env = example_env
      and args = "[''ra'' \<mapsto> ''83.63'', ''dec'' \<mapsto> ''22.01'', ''dm'' \<mapsto> ''abc'']"
      and s_ra = "''83.63''" and ra = "83.63" and s_dec = "''22.01''" and dec = "22.01"]
    API_malformed_number [where env = example_env
      and args = "[''ra'' \<mapsto> ''83.63'', ''dec'' \<mapsto> ''122.01'']"
      and s_ra = "''83.63''" and ra = "83.63" and s_dec = "''122.01''" and dec = "122.01"
      and msg = "''Latitude angle(s) must be within -90 deg <= angle <= 90 deg''"]
  by (auto simp: example_env_def example_float_ra example_float_dec example_float_big_dec
      example_float_abc unparseable_def example_SkyCoord_def)

text \<open>
  The claim as it was stated fails for a \<open>radius\<close> that is not a number: the conversion is
  outside the \<^verbatim>\<open>try\<close> block, and the exception leaves the handler.
\<close>

theorem API_malformed_radius_counterexample:
  "API example_env [''ra'' \<mapsto> ''83.63'', ''dec'' \<mapsto> ''22.01'', ''radius'' \<mapsto> ''abc''] =
     ([], Inl (ValueError ''abc''))"
  by (simp add: API_def arg_float_def example_env_def example_float_ra example_float_dec
      example_float_abc)

text \<open>
  Claim C6 at the request \<^verbatim>\<open>/api?ra=83.63&dec=22.01\<close>: the radius the search is called with
  is \<^verbatim>\<open>(5 * u.deg) * u.deg\<close>, 5 square degrees, where a given radius of 3 is passed as 3
  degrees; the defaults of \<open>dm\<close> and \<open>dmtol\<close> are \<^verbatim>\<open>None\<close> and 10.
\<close>

theorem API_default_radius:
  "fst (API example_env [''ra'' \<mapsto> ''83.63'', ''dec'' \<mapsto> ''22.01'']) =
     [SearchCall (83.63, 22.01) \<lparr>magnitude = 5, deg_power = 2\<rparr> None (Some 10) True] \<and>
   fst (API example_env [''ra'' \<mapsto> ''83.63'', ''dec'' \<mapsto> ''22.01'', ''radius'' \<mapsto> ''3.00'']) =
     [SearchCall (83.63, 22.01) \<lparr>magnitude = 3, deg_power = 1\<rparr> None (Some 10) True]"
  by (simp add: API_def API_search_def arg_float_def example_env_def example_float_ra
      example_float_dec example_float_3 example_SkyCoord_def times_deg_def unitless_def
      split: sum.splits)

section \<open>More evaluation in the example environment\<close>

lemma last_digits_1: "last_digits 1 n = [digit_char n]"
  using last_digits.simps(2) [of 0 n] by simp

lemma last_digits_2: "last_digits 2 n = [digit_char (n div 10), digit_char n]"
  using last_digits.simps(2) [of 1 n] by (simp add: last_digits_1 numeral_2_eq_2)

lemma digit_chars:
  "digit_char 0 = CHR ''0''" "digit_char 1 = CHR ''1''" "digit_char 2 = CHR ''2''"
  "digit_char 3 = CHR ''3''" "digit_char 4 = CHR ''4''" "digit_char 5 = CHR ''5''"
  "digit_char 6 = CHR ''6''" "digit_char 7 = CHR ''7''" "digit_char 8 = CHR ''8''"
  "digit_char 9 = CHR ''9''"
  by (simp_all add: digit_char_def)

lemma format_f_1_dm: "format_f 1 56.77 = ''56.8''"
  by (simp add: format_f_def round_half_even_def Let_def last_digits_1 dec_digits.simps
      digit_char_def)

lemma format_f_1_dist: "format_f 1 1703.1 = ''1703.1''"
  by (simp add: format_f_def round_half_even_def Let_def last_digits_1 dec_digits.simps
      digit_char_def)

lemma format_f_2_ra: "format_f 2 83.63 = ''83.63''"
  by (simp add: format_f_def round_half_even_def Let_def last_digits_2 dec_digits.simps
      digit_char_def)

lemma format_f_2_dec: "format_f 2 22.01 = ''22.01''"
  by (simp add: format_f_def round_half_even_def Let_def last_digits_2 dec_digits.simps
      digit_char_def)

lemma example_parse_crab: "example_parse ''83.63 22.01'' = Inr (83.63, 22.01)"
  by (simp add: example_parse_def example_float_ra example_float_dec example_SkyCoord_def)

section \<open>The Search route: the DM tolerance\<close>

text \<open>
  Claim C3. In the handler \<^verbatim>\<open>Search\<close>, when the field \<open>dmtol\<close> has no data, the tolerance is
  the data of the field \<open>dm\<close>: its \<^verbatim>\<open>None\<close> when there is no DM, and the DM itself when there
  is one. With a DM \<open>d\<close> and no tolerance, the search is called with the tolerance \<open>d\<close>,
  and the redirect to the API carries \<open>dmtol = d\<close>.
\<close>

theorem Search_DMtol_fallback:
  "(dmtol form = None \<longrightarrow> DMtol_of form = dm form) \<and>
   (validate_on_submit form \<and> parse_equcoord_and_validate env (coordinates form) = Inr coord \<and>
    dmtol form = None \<and> dm form = Some d \<longrightarrow>
      (\<not> api form \<and> \<not> clear form \<longrightarrow>
         fst (Search env form) =
           [SearchCall coord (times_deg (unitless (radius form))) (Some d) (Some d) False]) \<and>
      (api form \<longrightarrow>
         Search env form =
           ([], Inr (Redirect ''API''
              [(''ra'', ra_deg env coord), (''dec'', dec_deg env coord),
               (''radius'', radius form), (''dm'', d), (''dmtol'', d)]))))"
  by (auto simp: DMtol_of_def Search_def Search_table_def api_redirect_def Let_def
      split: sum.splits)

theorem Search_DMtol_fallback_witness:
  "DMtol_of crab_form = Some 50 \<and>
   fst (Search example_env crab_form) =
     [SearchCall (83.63, 22.01) \<lparr>magnitude = 3, deg_power = 1\<rparr> (Some 50) (Some 50) False] \<and>
   Search example_env crab_api_form =
     ([], Inr (Redirect ''API''
        [(''ra'', 83.63), (''dec'', 22.01), (''radius'', 3), (''dm'', 50), (''dmtol'', 50)]))"
  using Search_DMtol_fallback [where env = example_env and coord = "(83.63, 22.01)" and d = 50
      and form = crab_form]
    Search_DMtol_fallback [where env = example_env and coord = "(83.63, 22.01)" and d = 50
      and form = crab_api_form]
  by (simp add: example_env_def example_parse_crab times_deg_def unitless_def)

section \<open>The clear button\<close>

lemma Compute_convert_dm:
  "d_or_dm_selector form = ''dm'' \<Longrightarrow>
   fst (Compute_convert env form (Some c)) =
     [DmToDistCall (gal_l env c) (gal_b env c) (d_or_dm form) (model_selector form)] \<and>
   snd (Compute_convert env form (Some c)) =
     (case dm_to_dist env (gal_l env c) (gal_b env c) (d_or_dm form) (model_selector form) of
        Inl e \<Rightarrow> Inl e | Inr res \<Rightarrow> Inr (Some (d_or_dm form, fst res)))"
  by (simp add: Compute_convert_def split: sum.splits)

lemma Compute_convert_distance:
  "d_or_dm_selector form = ''distance'' \<Longrightarrow>
   fst (Compute_convert env form (Some c)) =
     [DistToDmCall (gal_l env c) (gal_b env c) (d_or_dm form) (model_selector form)] \<and>
   snd (Compute_convert env form (Some c)) =
     (case dist_to_dm env (gal_l env c) (gal_b env c) (d_or_dm form) (model_selector form) of
        Inl e \<Rightarrow> Inl e | Inr res \<Rightarrow> Inr (Some (fst res, d_or_dm form)))"
  by (simp add: Compute_convert_def split: sum.splits)

lemma Compute_valid:
  "validate_on_submit form \<Longrightarrow> Compute_coord env form = Inr coord \<Longrightarrow>
   Compute env form =
     (fst (Compute_convert env form coord),
      case snd (Compute_convert env form coord) of
        Inl e \<Rightarrow> Inl e
      | Inr vals \<Rightarrow>
          if clear form then Inr (Redirect ''Compute'' [])
          else Compute_page env form coord vals)"
  by (simp add: Compute_def split: sum.splits)

text \<open>
  Claim C10. A valid submission of the Compute form with the clear flag set, whose
  coordinate is parsed, still calls the conversion of the selected kind, and when the
  library returns, the handler answers with a redirect to the Compute route, which holds
  nothing of the result. A valid submission of the Search form with the clear flag set
  and the API flag not set makes no call of the catalog search, and when the coordinate
  is parsed it answers with a redirect to the Search route.
\<close>

theorem clear_after_conversion:
  "(validate_on_submit form \<and> clear form \<and> Compute_coord env form = Inr (Some c) \<longrightarrow>
      (d_or_dm_selector form = ''dm'' \<longrightarrow>
         fst (Compute env form) =
           [DmToDistCall (gal_l env c) (gal_b env c) (d_or_dm form) (model_selector form)] \<and>
         (\<not> isl (dm_to_dist env (gal_l env c) (gal_b env c) (d_or_dm form) (model_selector form))
            \<longrightarrow> snd (Compute env form) = Inr (Redirect ''Compute'' []))) \<and>
      (d_or_dm_selector form = ''distance'' \<longrightarrow>
         fst (Compute env form) =
           [DistToDmCall (gal_l env c) (gal_b env c) (d_or_dm form) (model_selector form)] \<and>
         (\<not> isl (dist_to_dm env (gal_l env c) (gal_b env c) (d_or_dm form) (model_selector form))
            \<longrightarrow> snd (Compute env form) = Inr (Redirect ''Compute'' [])))) \<and>
   (validate_on_submit sform \<and> clear sform \<and> \<not> api sform \<longrightarrow>
      fst (Search env sform) = [] \<and>
      (\<not> isl (parse_equcoord_and_validate env (coordinates sform)) \<longrightarrow>
         Search env sform = ([], Inr (Redirect ''Search'' []))))"
proof (intro conjI impI)
  assume h: "validate_on_submit form \<and> clear form \<and> Compute_coord env form = Inr (Some c)"
    and s: "d_or_dm_selector form = ''dm''"
  from h s show "fst (Compute env form) =
      [DmToDistCall (gal_l env c) (gal_b env c) (d_or_dm form) (model_selector form)]"
    by (simp add: Compute_valid Compute_convert_dm)
  assume "\<not> isl (dm_to_dist env (gal_l env c) (gal_b env c) (d_or_dm form) (model_selector form))"
  with h s show "snd (Compute env form) = Inr (Redirect ''Compute'' [])"
    by (auto simp: Compute_valid Compute_convert_dm split: sum.splits)
next
  assume h: "validate_on_submit form \<and> clear form \<and> Compute_coord env form = Inr (Some c)"
    and s: "d_or_dm_selector form = ''distance''"
  from h s show "fst (Compute env form) =
      [DistToDmCall (gal_l env c) (gal_b env c) (d_or_dm form) (model_selector form)]"
    by (simp add: Compute_valid Compute_convert_distance)
  assume "\<not> isl (dist_to_dm env (gal_l env c) (gal_b env c) (d_or_dm form) (model_selector form))"
  with h s show "snd (Compute env form) = Inr (Redirect ''Compute'' [])"
    by (auto simp: Compute_valid Compute_convert_distance split: sum.splits)
next
  assume h: "validate_on_submit sform \<and> clear sform \<and> \<not> api sform"
  then show "fst (Search env sform) = []"
    by (simp add: Search_def split: sum.splits)
  assume "\<not> isl (parse_equcoord_and_validate env (coordinates sform))"
  with h show "Search env sform = ([], Inr (Redirect ''Search'' []))"
    by (auto simp: Search_def split: sum.splits)
qed

theorem clear_after_conversion_witness:
  "fst (Compute example_env dm_clear_form) =
     [DmToDistCall 83.63 22.01 56.77 ''ymw16''] \<and>
   snd (Compute example_env dm_clear_form) =
     Inr (Redirect ''Compute'' []) \<and>
   Compute example_env distance_clear_form =
     ([DistToDmCall 83.63 22.01 2000 ''ne2001''], Inr (Redirect ''Compute'' [])) \<and>
   Search example_env crab_clear_form =
     ([], Inr (Redirect ''Search'' []))"
  using clear_after_conversion [where env = example_env and c = "(83.63, 22.01)"
      and form = dm_clear_form
      and sform = crab_clear_form]
    clear_after_conversion [where env = example_env and c = "(83.63, 22.01)"
      and form = distance_clear_form
      and sform = crab_clear_form]
  by (simp add: example_env_def example_parse_crab Compute_coord_def example_model_def
      prod_eq_iff)

section \<open>The Compute route: dispatch and output\<close>

lemma format_f_1_2000: "format_f 1 2000 = ''2000.0''"
  by (simp add: format_f_def round_half_even_def Let_def last_digits_1 dec_digits.simps
      digit_char_def)

lemma format_f_1_70000: "format_f 1 70000 = ''70000.0''"
  by (simp add: format_f_def round_half_even_def Let_def last_digits_1 dec_digits.simps
      digit_char_def)

lemma example_model_ymw16: "example_model z l b x ''ymw16'' = Inr (30 * x, z)"
  by (simp add: example_model_def)

lemma example_model_ne2001: "example_model z l b x ''ne2001'' = Inr (35 * x, z)"
  by (simp add: example_model_def)

lemma example_env_fields:
  "py_float example_env = example_float"
  "py_str example_env = example_str"
  "SkyCoord example_env = example_SkyCoord"
  "ra_deg example_env = fst"
  "dec_deg example_env = snd"
  "gal_l example_env = fst"
  "gal_b example_env = snd"
  "decimal example_env = example_str"
  "hmsdms example_env = (\<lambda>c. example_str (fst c) @ '' '' @ example_str (snd c))"
  "decimal_signed example_env = (\<lambda>x. (if 0 \<le> x then ''+'' else []) @ example_str x)"
  "parse_equcoord_and_validate example_env = example_parse"
  "parse_galcoord_and_validate example_env = example_parse"
  "table_search example_env = matcher example_separation example_catalog"
  "dm_to_dist example_env = example_model 0"
  "dist_to_dm example_env = example_model 0"
  "table_markup example_env = example_markup"
  by (simp_all add: example_env_def)

lemma Compute_coord_string_bound:
  "\<exists>cs. Compute_coord_string env form (Some c) = Inr cs"
  by (simp add: Compute_coord_string_def)

text \<open>
  Claim C7, as amended. For a valid submission of the Compute form whose coordinate is
  parsed, the handler reads the coordinate in the galactic frame and dispatches on the
  solve selector: "dm" calls \<^verbatim>\<open>dm_to_dist\<close> with the DM that was entered, "distance" calls
  \<^verbatim>\<open>dist_to_dm\<close> with the distance that was entered, in parsecs, and both get the model name
  of the form unchanged. The rendered page shows the entered value and the first
  component of the library's result, each with one decimal (and after \<^verbatim>\<open>dist_to_dm\<close> the
  label of the model); the second component of the library's result is not shown.
\<close>

theorem Compute_dispatch:
  assumes "validate_on_submit form" and "Compute_coord env form = Inr (Some c)"
  shows "(d_or_dm_selector form = ''dm'' \<longrightarrow>
            fst (Compute env form) =
              [DmToDistCall (gal_l env c) (gal_b env c) (d_or_dm form) (model_selector form)] \<and>
            (dm_to_dist env (gal_l env c) (gal_b env c) (d_or_dm form) (model_selector form) =
               Inr (found, other) \<and> \<not> clear form \<longrightarrow>
               (\<exists>cs. Compute_coord_string env form (Some c) = Inr cs \<and>
                  snd (Compute env form) =
                    Inr (RenderCompute (Some (cs,
                      ''For DM = '' @ format_f 1 (d_or_dm form) @
                      '' pc/cc, find distance = '' @ format_f 1 found @ '' pc'')))))) \<and>
         (d_or_dm_selector form = ''distance'' \<longrightarrow>
            fst (Compute env form) =
              [DistToDmCall (gal_l env c) (gal_b env c) (d_or_dm form) (model_selector form)] \<and>
            (dist_to_dm env (gal_l env c) (gal_b env c) (d_or_dm form) (model_selector form) =
               Inr (dmv, other) \<and> \<not> clear form \<and>
             model_label_of (model_choices form) (model_selector form) = Some label \<longrightarrow>
               (\<exists>cs. Compute_coord_string env form (Some c) = Inr cs \<and>
                  snd (Compute env form) =
                    Inr (RenderCompute (Some (cs,
                      ''For distance = '' @ format_f 1 (d_or_dm form) @
                      '' pc, find DM = '' @ format_f 1 dmv @ '' pc/cc with the '' @ label @
                      '' model''))))))"
proof (intro conjI impI)
  assume s: "d_or_dm_selector form = ''dm''"
  with assms show "fst (Compute env form) =
      [DmToDistCall (gal_l env c) (gal_b env c) (d_or_dm form) (model_selector form)]"
    by (simp add: Compute_valid Compute_convert_dm)
  assume r: "dm_to_dist env (gal_l env c) (gal_b env c) (d_or_dm form) (model_selector form) =
      Inr (found, other) \<and> \<not> clear form"
  obtain cs where cs: "Compute_coord_string env form (Some c) = Inr cs"
    using Compute_coord_string_bound [of env form c] by auto
  with assms s r have "snd (Compute env form) =
      Inr (RenderCompute (Some (cs,
        ''For DM = '' @ format_f 1 (d_or_dm form) @
        '' pc/cc, find distance = '' @ format_f 1 found @ '' pc'')))"
    by (simp add: Compute_valid Compute_convert_dm Compute_page_def Compute_result_string_def)
  with cs show "\<exists>cs. Compute_coord_string env form (Some c) = Inr cs \<and>
      snd (Compute env form) =
        Inr (RenderCompute (Some (cs,
          ''For DM = '' @ format_f 1 (d_or_dm form) @
          '' pc/cc, find distance = '' @ format_f 1 found @ '' pc'')))"
    by blast
next
  assume s: "d_or_dm_selector form = ''distance''"
  with assms show "fst (Compute env form) =
      [DistToDmCall (gal_l env c) (gal_b env c) (d_or_dm form) (model_selector form)]"
    by (simp add: Compute_valid Compute_convert_distance)
  assume r: "dist_to_dm env (gal_l env c) (gal_b env c) (d_or_dm form) (model_selector form) =
      Inr (dmv, other) \<and> \<not> clear form \<and>
      model_label_of (model_choices form) (model_selector form) = Some label"
  obtain cs where cs: "Compute_coord_string env form (Some c) = Inr cs"
    using Compute_coord_string_bound [of env form c] by auto
  with assms s r have "snd (Compute env form) =
      Inr (RenderCompute (Some (cs,
        ''For distance = '' @ format_f 1 (d_or_dm form) @
        '' pc, find DM = '' @ format_f 1 dmv @ '' pc/cc with the '' @ label @ '' model'')))"
    by (simp add: Compute_valid Compute_convert_distance Compute_page_def
        Compute_result_string_def)
  with cs show "\<exists>cs. Compute_coord_string env form (Some c) = Inr cs \<and>
      snd (Compute env form) =
        Inr (RenderCompute (Some (cs,
          ''For distance = '' @ format_f 1 (d_or_dm form) @
          '' pc, find DM = '' @ format_f 1 dmv @ '' pc/cc with the '' @ label @ '' model'')))"
    by blast
qed

theorem Compute_dispatch_witness:
  "fst (Compute example_env dm_form) =
     [DmToDistCall 83.63 22.01 56.77 ''ymw16''] \<and>
   snd (Compute example_env dm_form) =
     Inr (RenderCompute (Some
       (''Computing for RA,Dec 83.63 22.01 = 83.63d,+22.01d<br>= l,b = 83.63d,22.01d ...'',
        ''For DM = 56.8 pc/cc, find distance = 1703.1 pc''))) \<and>
   fst (Compute example_env distance_form) =
     [DistToDmCall 83.63 22.01 2000 ''ne2001''] \<and>
   snd (Compute example_env distance_form) =
     Inr (RenderCompute (Some
       (''Computing for l,b = 83.63d,22.01d ...<br>= RA,Dec 83.63 22.01 = 83.63d,+22.01d'',
        ''For distance = 2000.0 pc, find DM = 70000.0 pc/cc with the NE2001 model'')))"
  using Compute_dispatch [where env = example_env and c = "(83.63, 22.01)"
      and found = "1703.1" and other = 0
      and form = dm_form]
    Compute_dispatch [where env = example_env and c = "(83.63, 22.01)"
      and dmv = 70000 and other = 0 and label = "''NE2001''"
      and form = distance_form]
  by (simp add: example_env_fields example_parse_crab Compute_coord_def example_model_ymw16
      example_model_ne2001 format_f_1_dm [simplified] format_f_1_dist [simplified]
      format_f_1_2000 [simplified] format_f_1_70000 [simplified] Compute_coord_string_def example_str_def
      format_f_2_ra [simplified] format_f_2_dec [simplified])

text \<open>
  The claim as it was stated fails for what the library reports beside its result: two
  libraries whose results differ only in their second component render the same page.
\<close>

theorem Compute_second_component_counterexample:
  "example_model 1 83.63 22.01 56.77 ''ymw16'' = Inr (1703.1, 1) \<and>
   example_model 2 83.63 22.01 56.77 ''ymw16'' = Inr (1703.1, 2) \<and>
   snd (Compute (example_env\<lparr>dm_to_dist := example_model 1\<rparr>)
      dm_form) =
     Inr (RenderCompute (Some
       (''Computing for RA,Dec 83.63 22.01 = 83.63d,+22.01d<br>= l,b = 83.63d,22.01d ...'',
        ''For DM = 56.8 pc/cc, find distance = 1703.1 pc''))) \<and>
   snd (Compute (example_env\<lparr>dm_to_dist := example_model 2\<rparr>)
      dm_form) =
     Inr (RenderCompute (Some
       (''Computing for RA,Dec 83.63 22.01 = 83.63d,+22.01d<br>= l,b = 83.63d,22.01d ...'',
        ''For DM = 56.8 pc/cc, find distance = 1703.1 pc'')))"
  by (simp add: example_env_fields example_parse_crab Compute_def Compute_coord_def
      Compute_convert_def Compute_page_def Compute_coord_string_def Compute_result_string_def
      example_model_ymw16 example_str_def format_f_1_dm [simplified]
      format_f_1_dist [simplified] format_f_2_ra [simplified] format_f_2_dec [simplified])

section \<open>The Search route: the redirect to the API\<close>

lemma DMtol_of_update [simp]:
  "DMtol_of (form\<lparr>api := a, clear := c\<rparr>) = DMtol_of form"
  by (simp add: DMtol_of_def split: option.splits)

lemma Search_result_update [simp]:
  "Search_result env (form\<lparr>api := a, clear := c\<rparr>) coord = Search_result env form coord"
  by (simp add: Search_result_def)









section \<open>Digits, decimals and replacement\<close>

lemma is_digit_digit_char: "is_digit (digit_char d)"
proof -
  have "d mod 10 < length ''0123456789''" by simp
  then have "''0123456789'' ! (d mod 10) \<in> set ''0123456789''"
    by (rule nth_mem)
  then show ?thesis
    by (simp only: is_digit_def digit_char_def)
qed

lemma dec_digits_digits: "dec_digits n \<noteq> [] \<and> list_all is_digit (dec_digits n)"
proof (induction n rule: dec_digits.induct)
  case (1 n)
  show ?case
  proof (cases "n < 10")
    case True
    then show ?thesis
      by (simp add: dec_digits.simps [of n] is_digit_digit_char)
  next
    case False
    with 1 show ?thesis
      by (simp add: dec_digits.simps [of n] is_digit_digit_char)
  qed
qed

lemma not_digit_minus: "\<not> is_digit CHR ''-''"
  by (simp add: is_digit_def)

lemma two_decimals_digits:
  assumes "ds \<noteq> []" and "list_all is_digit ds" and "is_digit a" and "is_digit b"
  shows "two_decimals (ds @ ''.'' @ [a, b])" and "two_decimals (''-'' @ ds @ ''.'' @ [a, b])"
proof -
  from assms obtain c cs where ds: "ds = c # cs" and c: "is_digit c"
    by (cases ds) auto
  from c have "c \<noteq> CHR ''-''"
    using not_digit_minus by auto
  with assms ds show "two_decimals (ds @ ''.'' @ [a, b])"
    by (simp add: two_decimals_def nth_append)
  from assms show "two_decimals (''-'' @ ds @ ''.'' @ [a, b])"
    by (simp add: two_decimals_def nth_append)
qed

lemma two_decimals_format_f: "two_decimals (format_f 2 x)"
proof -
  define n where "n = round_half_even (\<bar>x\<bar> * 10 ^ 2)"
  have f: "format_f 2 x =
      (if x < 0 then ''-'' else []) @ dec_digits (n div 10 ^ 2) @ ''.'' @
      [digit_char (n div 10), digit_char n]"
    by (simp add: format_f_def n_def Let_def last_digits_2)
  show ?thesis
    using two_decimals_digits [of "dec_digits (n div 10 ^ 2)" "digit_char (n div 10)" "digit_char n"]
      dec_digits_digits [of "n div 10 ^ 2"] is_digit_digit_char
    by (cases "x < 0") (simp_all add: f)
qed

lemma str_replace_absent:
  "old \<noteq> [] \<Longrightarrow> \<not> sublist old s \<Longrightarrow> str_replace old new s = s"
proof (induction s)
  case Nil
  then show ?case by (simp add: str_replace.simps)
next
  case (Cons c s)
  from Cons.prems have np: "\<not> prefix old (c # s)"
    by (auto simp: prefix_imp_sublist)
  from Cons.prems have "\<not> sublist old s"
    by (auto simp: sublist_Cons_right)
  with Cons have "str_replace old new s = s" by simp
  with np Cons.prems show ?case
    by (simp add: str_replace.simps [of old new "c # s"])
qed

lemma prefix_short: "prefix xs (ys @ zs) \<Longrightarrow> length xs \<le> length ys \<Longrightarrow> prefix xs ys"
  by (auto simp: prefix_append)

lemma str_replace_first:
  "old \<noteq> [] \<Longrightarrow> \<not> sublist old (pre @ butlast old) \<Longrightarrow>
   str_replace old new (pre @ old @ post) = pre @ new @ str_replace old new post"
proof (induction pre)
  case Nil
  then show ?case
    by (simp add: str_replace.simps [of old new "old @ post"])
next
  case (Cons c pre)
  have np: "\<not> prefix old ((c # pre) @ old @ post)"
  proof
    assume p: "prefix old ((c # pre) @ old @ post)"
    have e: "butlast old @ [last old] = old"
      using Cons.prems(1) by simp
    have "(c # pre) @ old @ post = (c # pre) @ (butlast old @ [last old]) @ post"
      by (simp only: e)
    also have "\<dots> = ((c # pre) @ butlast old) @ ([last old] @ post)"
      by simp
    finally have eq: "(c # pre) @ old @ post = ((c # pre) @ butlast old) @ ([last old] @ post)" .
    from Cons.prems(1) have l: "length old \<le> length ((c # pre) @ butlast old)"
      by simp
    from p have "prefix old (((c # pre) @ butlast old) @ ([last old] @ post))"
      by (simp only: eq [symmetric])
    then have "prefix old ((c # pre) @ butlast old)"
      using l by (rule prefix_short)
    then show False
      using Cons.prems(2) prefix_imp_sublist by blast
  qed
  from Cons.prems(2) have "\<not> sublist old (pre @ butlast old)"
    by (auto simp: sublist_Cons_right)
  with Cons have "str_replace old new (pre @ old @ post) = pre @ new @ str_replace old new post"
    by simp
  with np Cons.prems(1) show ?case
    by (simp add: str_replace.simps [of old new "c # pre @ old @ post"])
qed

lemma link_surveys_absent:
  "(\<forall>s \<in> set surveys. fst s \<noteq> [] \<and> \<not> sublist (fst s) html) \<Longrightarrow> link_surveys surveys html = html"
  by (induction surveys) (auto simp: str_replace_absent)

section \<open>A search in the example environment\<close>

lemma last_digits_numeral:
  "last_digits (numeral k) n = last_digits (pred_numeral k) (n div 10) @ [digit_char n]"
proof -
  have "numeral k = Suc (pred_numeral k)"
    by (rule numeral_eq_Suc)
  then show ?thesis
    by (simp only: last_digits.simps)
qed

lemma format_f_6_0: "format_f 6 0 = ''0.000000''"
  by (simp add: format_f_def round_half_even_def Let_def last_digits_numeral dec_digits.simps
      digit_char_def)

lemma format_f_2_P: "format_f 2 245.97 = ''245.97''"
  by (simp add: format_f_def round_half_even_def Let_def last_digits_2 dec_digits.simps
      digit_char_def)

lemma format_f_2_Distance: "format_f 2 1565.1 = ''1565.10''"
  by (simp add: format_f_def round_half_even_def Let_def last_digits_2 dec_digits.simps
      digit_char_def)

lemma format_f_2_gra: "format_f 2 85.25 = ''85.25''"
  by (simp add: format_f_def round_half_even_def Let_def last_digits_2 dec_digits.simps
      digit_char_def)

lemma format_f_2_gdec: "format_f 2 23.5 = ''23.50''"
  by (simp add: format_f_def round_half_even_def Let_def last_digits_2 dec_digits.simps
      digit_char_def)

lemma format_f_1_1: "format_f 1 1 = ''1.0''"
  by (simp add: format_f_def round_half_even_def Let_def last_digits_1 dec_digits.simps
      digit_char_def)

lemma example_float_gra: "example_float ''85.25'' = Some 85.25"
  by (simp add: example_float_def unsigned_float_def is_digit_def digits_value_def)

lemma example_float_gdec: "example_float ''23.50'' = Some 23.5"
  by (simp add: example_float_def unsigned_float_def is_digit_def digits_value_def)

lemma example_float_1: "example_float ''1.00'' = Some 1"
  by (simp add: example_float_def unsigned_float_def is_digit_def digits_value_def)

lemma example_parse_gbncc: "example_parse ''85.25 23.50'' = Inr (85.25, 23.5)"
  by (simp add: example_parse_def example_float_gra example_float_gdec example_SkyCoord_def)

lemma matcher_gbncc:
  "matcher example_separation example_catalog (85.25, 23.5) \<lparr>magnitude = 1, deg_power = 1\<rparr>
     None t js =
   Inr [gbncc_row]"
  by (simp add: matcher_def entries_within_def annotate_def example_catalog_def
      example_separation_def)

lemma example_env_table_fields:
  "Surveys example_env =
     [(''GBNCC'', ''http://astro.phys.wvu.edu/GBNCC/''),
      (''ATNF'', ''https://www.atnf.csiro.au/research/pulsar/psrcat/'')]"
  "cell_repr example_env =
     (\<lambda>v. case v of Num x \<Rightarrow> format_f 6 x | PosInf \<Rightarrow> ''inf'' | NegInf \<Rightarrow> ''-inf''
            | NaN \<Rightarrow> ''NaN'')"
  "position_repr example_env = (\<lambda>c. example_str (fst c) @ '' '' @ example_str (snd c))"
  by (simp_all add: example_env_def)

lemma row_cells_gbncc:
  "row_cells example_env
     gbncc_row =
   [''GBNCC J0540+23'', ''85.25 23.50'', ''NaN'', ''245.97'', ''1565.10'', ''0.000000'', ''GBNCC'']"
  by (simp add: row_cells_def columns_def cell_def column_cell_def formatters_def
      percent_f_def na_rep_def example_env_table_fields example_str_def
      format_f_2_P [simplified]
      format_f_2_Distance [simplified] format_f_2_gra [simplified] format_f_2_gdec [simplified]
      format_f_6_0 [simplified])

lemma link_surveys_gbncc:
  "link_surveys (Surveys example_env)
     (example_markup
        [[''GBNCC J0540+23'', ''85.25 23.50'', ''NaN'', ''245.97'', ''1565.10'', ''0.000000'',
          ''GBNCC'']]) =
   example_markup
     [[survey_link ''http://astro.phys.wvu.edu/GBNCC/'' ''GBNCC'' @ '' J0540+23'',
       ''85.25 23.50'', ''NaN'', ''245.97'', ''1565.10'', ''0.000000'',
       survey_link ''http://astro.phys.wvu.edu/GBNCC/'' ''GBNCC'']]"
  by (simp add: example_env_table_fields example_markup_def survey_link_def quote_def
      str_replace.simps)

lemma Search_example_page:
  "Search example_env gbncc_form =
     ([SearchCall (85.25, 23.5) \<lparr>magnitude = 1, deg_power = 1\<rparr> None None False],
      Inr (RenderSearch (Some
        \<lparr>coord_string = ''Searching 1.0deg around RA,Dec 85.25 23.50 = 85.25d,+23.50d ...'',
         nfound = 1,
         html_table =
           example_markup
             [[survey_link ''http://astro.phys.wvu.edu/GBNCC/'' ''GBNCC'' @ '' J0540+23'',
               ''85.25 23.50'', ''NaN'', ''245.97'', ''1565.10'', ''0.000000'',
               survey_link ''http://astro.phys.wvu.edu/GBNCC/'' ''GBNCC'']]\<rparr>)))"
proof -
  have r: "Search_result example_env gbncc_form (85.25, 23.5) =
    Inr [gbncc_row]"
    using matcher_gbncc [of None False]
    by (simp add: Search_result_def example_env_fields times_deg_def unitless_def DMtol_of_def)
  have c: "Search_coord_string example_env gbncc_form (85.25, 23.5) =
    Inr ''Searching 1.0deg around RA,Dec 85.25 23.50 = 85.25d,+23.50d ...''"
    by (simp add: Search_coord_string_def example_env_fields example_str_def
        format_f_1_1 [simplified] format_f_2_gra [simplified] format_f_2_gdec [simplified])
  have h: "link_surveys (Surveys example_env) (to_html example_env
      [gbncc_row]) =
    example_markup
      [[survey_link ''http://astro.phys.wvu.edu/GBNCC/'' ''GBNCC'' @ '' J0540+23'',
        ''85.25 23.50'', ''NaN'', ''245.97'', ''1565.10'', ''0.000000'',
        survey_link ''http://astro.phys.wvu.edu/GBNCC/'' ''GBNCC'']]"
    using link_surveys_gbncc row_cells_gbncc
    by (simp add: to_html_def example_env_fields)
  show ?thesis
    by (simp add: Search_def Search_table_def example_env_fields example_parse_gbncc
        r [simplified] c [simplified] h [simplified] DMtol_of_def times_deg_def unitless_def)
qed

section \<open>Results within the radius\<close>

lemma entries_within_rows:
  "r \<in> set (entries_within sep catalog center R) \<Longrightarrow>
   separation r \<le> R \<and> (\<exists>e \<in> set catalog. r = annotate sep center e \<and> sep center (position e) \<le> R)"
  by (auto simp: entries_within_def annotate_def)

lemma matcher_rows:
  assumes "matcher sep catalog center q dmc dmt js = Inr rows"
  shows "deg_power q = 1 \<and>
         (\<forall>r \<in> set rows. separation r \<le> magnitude q \<and>
            (\<exists>e \<in> set catalog. r = annotate sep center e \<and> sep center (position e) \<le> magnitude q))"
proof -
  from assms have p: "deg_power q = 1"
    by (simp add: matcher_def split: if_splits)
  from assms p have "set rows \<subseteq> set (entries_within sep catalog center (magnitude q))"
    by (auto simp: matcher_def split: option.splits)
  with p show ?thesis
    using entries_within_rows [of _ sep catalog center "magnitude q"] by blast
qed

lemma API_Json:
  assumes "API env args = (tr, Inr (Json rows))"
  shows "\<exists>s_ra s_dec a b center rad dmc tol.
           args ''ra'' = Some s_ra \<and> py_float env s_ra = Some a \<and>
           args ''dec'' = Some s_dec \<and> py_float env s_dec = Some b \<and>
           SkyCoord env a b = Inr center \<and>
           arg_float env args ''radius'' = Inr rad \<and>
           table_search env center
             (times_deg (case rad of None \<Rightarrow> times_deg (unitless 5) | Some r \<Rightarrow> unitless r))
             dmc (Some tol) True = Inr rows"
  using assms
  by (auto simp: API_def API_search_def split: option.splits sum.splits)

lemma Search_page_result:
  assumes "Search env form = (tr, Inr (RenderSearch (Some page)))"
  shows "\<exists>center result.
           parse_equcoord_and_validate env (coordinates form) = Inr center \<and>
           Search_result env form center = Inr result \<and>
           html_table page = link_surveys (Surveys env) (to_html env result) \<and>
           nfound page = length result"
  using assms
  by (auto simp: Search_def Search_table_def api_redirect_def Let_def
      split: if_splits sum.splits option.splits)

lemma API_example_gbncc:
  "API example_env [''ra'' \<mapsto> ''85.25'', ''dec'' \<mapsto> ''23.50'', ''radius'' \<mapsto> ''1.00''] =
     ([SearchCall (85.25, 23.5) \<lparr>magnitude = 1, deg_power = 1\<rparr> None (Some 10) True],
      Inr (Json [gbncc_row]))"
  using matcher_gbncc [of "Some 10" True]
  by (simp add: API_def API_search_def arg_float_def example_env_fields example_float_gra
      example_float_gdec example_float_1 example_SkyCoord_def times_deg_def unitless_def)

text \<open>
  Claim C1, for the catalog search of the spec: an environment whose \<open>table_search\<close> is the
  Matcher over a catalog. Whenever the API route returns a result, the request gave a
  radius \<open>R\<close>, and every row of the result is an entry of the catalog annotated with its
  separation from the center that \<open>ra\<close> and \<open>dec\<close> name, which is at most \<open>R\<close>. Whenever the
  Search route renders a result page, the table and the count are those of a result whose
  every row is an entry of the catalog annotated with its separation from the parsed
  coordinate, which is at most the radius of the form. So no entry farther away than the
  radius is in a result.
\<close>

theorem search_within_radius:
  assumes "table_search env = matcher sep catalog"
  shows "(API env args = (tr, Inr (Json rows)) \<longrightarrow>
            (\<exists>s_ra s_dec s a b R center.
               args ''ra'' = Some s_ra \<and> py_float env s_ra = Some a \<and>
               args ''dec'' = Some s_dec \<and> py_float env s_dec = Some b \<and>
               args ''radius'' = Some s \<and> py_float env s = Some R \<and>
               SkyCoord env a b = Inr center \<and>
               (\<forall>r \<in> set rows. separation r \<le> R \<and>
                  (\<exists>e \<in> set catalog. r = annotate sep center e \<and>
                     sep center (position e) \<le> R)))) \<and>
         (Search env form = (tr', Inr (RenderSearch (Some page))) \<longrightarrow>
            (\<exists>center result.
               parse_equcoord_and_validate env (coordinates form) = Inr center \<and>
               Search_result env form center = Inr result \<and>
               html_table page = link_surveys (Surveys env) (to_html env result) \<and>
               nfound page = length result \<and>
               (\<forall>r \<in> set result. separation r \<le> radius form \<and>
                  (\<exists>e \<in> set catalog. r = annotate sep center e \<and>
                     sep center (position e) \<le> radius form))))"
proof (intro conjI impI)
  assume "API env args = (tr, Inr (Json rows))"
  then obtain s_ra s_dec a b center rad dmc tol where
    h: "args ''ra'' = Some s_ra" "py_float env s_ra = Some a"
       "args ''dec'' = Some s_dec" "py_float env s_dec = Some b"
       "SkyCoord env a b = Inr center" "arg_float env args ''radius'' = Inr rad" and
    m: "table_search env center
          (times_deg (case rad of None \<Rightarrow> times_deg (unitless 5) | Some r \<Rightarrow> unitless r))
          dmc (Some tol) True = Inr rows"
    using API_Json [of env args tr rows] by blast
  from m assms have mr: "matcher sep catalog center
          (times_deg (case rad of None \<Rightarrow> times_deg (unitless 5) | Some r \<Rightarrow> unitless r))
          dmc (Some tol) True = Inr rows"
    by simp
  note facts = matcher_rows [OF mr]
  from facts obtain R where R: "rad = Some R"
    by (cases rad) (simp_all add: times_deg_def unitless_def)
  with h(6) obtain s where s: "args ''radius'' = Some s" "py_float env s = Some R"
    by (auto simp: arg_float_def split: option.splits)
  from facts R have "\<forall>r \<in> set rows. separation r \<le> R \<and>
      (\<exists>e \<in> set catalog. r = annotate sep center e \<and> sep center (position e) \<le> R)"
    by (simp add: times_deg_def unitless_def)
  with h s show "\<exists>s_ra s_dec s a b R center.
               args ''ra'' = Some s_ra \<and> py_float env s_ra = Some a \<and>
               args ''dec'' = Some s_dec \<and> py_float env s_dec = Some b \<and>
               args ''radius'' = Some s \<and> py_float env s = Some R \<and>
               SkyCoord env a b = Inr center \<and>
               (\<forall>r \<in> set rows. separation r \<le> R \<and>
                  (\<exists>e \<in> set catalog. r = annotate sep center e \<and>
                     sep center (position e) \<le> R))"
    by blast
next
  assume "Search env form = (tr', Inr (RenderSearch (Some page)))"
  then obtain center result where
    h: "parse_equcoord_and_validate env (coordinates form) = Inr center"
       "Search_result env form center = Inr result"
       "html_table page = link_surveys (Surveys env) (to_html env result)"
       "nfound page = length result"
    using Search_page_result [of env form tr' page] by blast
  from h(2) assms have "matcher sep catalog center (times_deg (unitless (radius form)))
      (dm form) (DMtol_of form) False = Inr result"
    by (simp add: Search_result_def)
  from matcher_rows [OF this] have "\<forall>r \<in> set result. separation r \<le> radius form \<and>
      (\<exists>e \<in> set catalog. r = annotate sep center e \<and> sep center (position e) \<le> radius form)"
    by (simp add: times_deg_def unitless_def)
  with h show "\<exists>center result.
               parse_equcoord_and_validate env (coordinates form) = Inr center \<and>
               Search_result env form center = Inr result \<and>
               html_table page = link_surveys (Surveys env) (to_html env result) \<and>
               nfound page = length result \<and>
               (\<forall>r \<in> set result. separation r \<le> radius form \<and>
                  (\<exists>e \<in> set catalog. r = annotate sep center e \<and>
                     sep center (position e) \<le> radius form))"
    by blast
qed

theorem search_within_radius_witness:
  "API example_env [''ra'' \<mapsto> ''85.25'', ''dec'' \<mapsto> ''23.50'', ''radius'' \<mapsto> ''1.00''] =
     ([SearchCall (85.25, 23.5) \<lparr>magnitude = 1, deg_power = 1\<rparr> None (Some 10) True],
      Inr (Json [gbncc_row])) \<and>
   list_all (\<lambda>r. separation r \<le> 1)
     [gbncc_row] \<and>
   (\<exists>result.
      Search_result example_env gbncc_form (85.25, 23.5) =
        Inr result \<and>
      list_all (\<lambda>r. separation r \<le> 1) result)"
proof -
  note t = search_within_radius [where env = example_env and sep = example_separation
      and catalog = example_catalog
      and args = "[''ra'' \<mapsto> ''85.25'', ''dec'' \<mapsto> ''23.50'', ''radius'' \<mapsto> ''1.00'']"
      and tr = "[SearchCall (85.25, 23.5) \<lparr>magnitude = 1, deg_power = 1\<rparr> None (Some 10) True]"
      and rows = "[gbncc_row]"
      and form = gbncc_form
      and tr' = "[SearchCall (85.25, 23.5) \<lparr>magnitude = 1, deg_power = 1\<rparr> None None False]"
      and page = gbncc_page,
      OF example_env_fields(13)]
  from t API_example_gbncc have a: "list_all (\<lambda>r. separation r \<le> 1)
     [gbncc_row]"
    by simp
  from t Search_example_page have "\<exists>center result.
      parse_equcoord_and_validate example_env ''85.25 23.50'' = Inr center \<and>
      Search_result example_env gbncc_form center =
        Inr result \<and>
      (\<forall>r \<in> set result. separation r \<le> 1)"
    by auto
  then have "\<exists>result.
      Search_result example_env gbncc_form (85.25, 23.5) =
        Inr result \<and>
      list_all (\<lambda>r. separation r \<le> 1) result"
    by (auto simp: example_env_fields example_parse_gbncc list_all_iff)
  with a API_example_gbncc show ?thesis
    by blast
qed

section \<open>The HTML table: decimals\<close>

lemma format_f_2_rra: "format_f 2 282.5 = ''282.50''"
  by (simp add: format_f_def round_half_even_def Let_def last_digits_2 dec_digits.simps
      digit_char_def)

lemma format_f_2_rdec: "format_f 2 15.25 = ''15.25''"
  by (simp add: format_f_def round_half_even_def Let_def last_digits_2 dec_digits.simps
      digit_char_def)

lemma format_f_6_rdm: "format_f 6 24.5 = ''24.500000''"
  by (simp add: format_f_def round_half_even_def Let_def last_digits_numeral dec_digits.simps
      digit_char_def)

lemma format_f_2_rdist: "format_f 2 1250 = ''1250.00''"
  by (simp add: format_f_def round_half_even_def Let_def last_digits_2 dec_digits.simps
      digit_char_def)

lemma example_float_rra: "example_float ''282.50'' = Some 282.5"
  by (simp add: example_float_def unsigned_float_def is_digit_def digits_value_def)

lemma example_float_rdec: "example_float ''15.25'' = Some 15.25"
  by (simp add: example_float_def unsigned_float_def is_digit_def digits_value_def)

lemma example_parse_rrat: "example_parse ''282.50 15.25'' = Inr (282.5, 15.25)"
  by (simp add: example_parse_def example_float_rra example_float_rdec example_SkyCoord_def)

lemma matcher_rrat:
  "matcher example_separation example_catalog (282.5, 15.25) \<lparr>magnitude = 1, deg_power = 1\<rparr>
     None t js =
   Inr [rrat_row]"
  by (simp add: matcher_def entries_within_def annotate_def example_catalog_def
      example_separation_def)

lemma row_cells_rrat:
  "row_cells example_env rrat_row =
   [''J1850+15'', ''282.50 15.25'', ''24.500000'', ''NaN'', ''1250.00'', ''0.000000'', ''ATNF'']"
  by (simp add: row_cells_def columns_def cell_def column_cell_def formatters_def
      percent_f_def na_rep_def example_env_table_fields example_str_def
      format_f_2_rra [simplified] format_f_2_rdec [simplified] format_f_6_rdm [simplified]
      format_f_2_rdist [simplified] format_f_6_0 [simplified])

lemma link_surveys_rrat:
  "link_surveys (Surveys example_env)
     (example_markup
        [[''J1850+15'', ''282.50 15.25'', ''24.500000'', ''NaN'', ''1250.00'', ''0.000000'',
          ''ATNF'']]) =
   example_markup
     [[''J1850+15'', ''282.50 15.25'', ''24.500000'', ''NaN'', ''1250.00'', ''0.000000'',
       survey_link ''https://www.atnf.csiro.au/research/pulsar/psrcat/'' ''ATNF'']]"
  by (simp add: example_env_table_fields example_markup_def survey_link_def quote_def
      str_replace.simps)

lemma Search_example_rrat:
  "Search example_env rrat_form =
     ([SearchCall (282.5, 15.25) \<lparr>magnitude = 1, deg_power = 1\<rparr> None None False],
      Inr (RenderSearch (Some rrat_page)))"
proof -
  have r: "Search_result example_env rrat_form (282.5, 15.25) = Inr [rrat_row]"
    using matcher_rrat [of None False]
    by (simp add: Search_result_def example_env_fields times_deg_def unitless_def DMtol_of_def)
  have c: "Search_coord_string example_env rrat_form (282.5, 15.25) =
    Inr ''Searching 1.0deg around RA,Dec 282.50 15.25 = 282.50d,+15.25d ...''"
    by (simp add: Search_coord_string_def example_env_fields example_str_def
        format_f_1_1 [simplified] format_f_2_rra [simplified] format_f_2_rdec [simplified])
  have h: "link_surveys (Surveys example_env) (to_html example_env [rrat_row]) =
    example_markup
      [[''J1850+15'', ''282.50 15.25'', ''24.500000'', ''NaN'', ''1250.00'', ''0.000000'',
        survey_link ''https://www.atnf.csiro.au/research/pulsar/psrcat/'' ''ATNF'']]"
    using link_surveys_rrat row_cells_rrat
    by (simp add: to_html_def example_env_fields)
  show ?thesis
    by (simp add: Search_def Search_table_def example_env_fields example_parse_rrat
        r [simplified] c [simplified] h [simplified] DMtol_of_def times_deg_def unitless_def)
qed

lemma cell_formatted:
  "cell env r ''P'' = (if P r = NaN then na_rep else percent_f 2 (P r))"
  "cell env r ''Distance'' = (if Distance r = NaN then na_rep else percent_f 2 (Distance r))"
  "row_cells env r ! 3 = cell env r ''P''" "row_cells env r ! 4 = cell env r ''Distance''"
  by (simp_all add: cell_def column_cell_def formatters_def row_cells_def columns_def)

lemma not_two_decimals_NaN: "\<not> two_decimals na_rep"
  by (simp add: two_decimals_def na_rep_def is_digit_def)

lemma not_two_decimals_inf: "\<not> two_decimals (percent_f 2 PosInf)" "\<not> two_decimals (percent_f 2 NegInf)"
  by (simp_all add: two_decimals_def percent_f_def is_digit_def)

lemma Search_result_gbncc:
  "Search_result example_env gbncc_form (85.25, 23.5) = Inr [gbncc_row]"
  using matcher_gbncc [of None False]
  by (simp add: Search_result_def example_env_fields times_deg_def unitless_def DMtol_of_def)

lemma Search_result_rrat:
  "Search_result example_env rrat_form (282.5, 15.25) = Inr [rrat_row]"
  using matcher_rrat [of None False]
  by (simp add: Search_result_def example_env_fields times_deg_def unitless_def DMtol_of_def)

lemma two_decimals_percent_f: "two_decimals (percent_f 2 (Num x))"
  by (simp add: percent_f_def two_decimals_format_f)

text \<open>
  Claim C8, as amended. The formatters of the columns \<open>P\<close> and \<open>Distance\<close> are
  \<^verbatim>\<open>"%.2f" % x\<close>, which writes every finite number with exactly two decimals and an
  infinite one as \<^verbatim>\<open>inf\<close> or \<^verbatim>\<open>-inf\<close>. In the table of a rendered Search page the cell
  of either column is, for every row of the result, \<^verbatim>\<open>NaN\<close> when the value is missing and
  the formatted value otherwise; so it has two decimals whenever the value is a finite
  number.
\<close>

theorem Search_finite_two_decimals:
  "formatters ''P'' = Some (percent_f 2) \<and> formatters ''Distance'' = Some (percent_f 2) \<and>
   two_decimals (percent_f 2 (Num x)) \<and>
   percent_f 2 PosInf = ''inf'' \<and> percent_f 2 NegInf = ''-inf'' \<and>
   (Search env form = (tr, Inr (RenderSearch (Some page))) \<longrightarrow>
      (\<exists>center result.
         parse_equcoord_and_validate env (coordinates form) = Inr center \<and>
         Search_result env form center = Inr result \<and>
         html_table page =
           link_surveys (Surveys env) (table_markup env (map (row_cells env) result)) \<and>
         (\<forall>r \<in> set result.
            row_cells env r ! 3 = cell env r ''P'' \<and>
            row_cells env r ! 4 = cell env r ''Distance'' \<and>
            cell env r ''P'' = (if P r = NaN then ''NaN'' else percent_f 2 (P r)) \<and>
            cell env r ''Distance'' =
              (if Distance r = NaN then ''NaN'' else percent_f 2 (Distance r)) \<and>
            (\<forall>v. P r = Num v \<longrightarrow> two_decimals (cell env r ''P'')) \<and>
            (\<forall>v. Distance r = Num v \<longrightarrow> two_decimals (cell env r ''Distance'')))))"
proof (intro conjI impI)
  show "formatters ''P'' = Some (percent_f 2)" "formatters ''Distance'' = Some (percent_f 2)"
    by (simp_all add: formatters_def)
  show "two_decimals (percent_f 2 (Num x))"
    by (rule two_decimals_percent_f)
  show "percent_f 2 PosInf = ''inf''" "percent_f 2 NegInf = ''-inf''"
    by (simp_all add: percent_f_def)
next
  assume "Search env form = (tr, Inr (RenderSearch (Some page)))"
  then obtain center result where
    h: "parse_equcoord_and_validate env (coordinates form) = Inr center"
       "Search_result env form center = Inr result"
       "html_table page = link_surveys (Surveys env) (to_html env result)"
    using Search_page_result [of env form tr page] by blast
  have "\<forall>r \<in> set result.
            row_cells env r ! 3 = cell env r ''P'' \<and>
            row_cells env r ! 4 = cell env r ''Distance'' \<and>
            cell env r ''P'' = (if P r = NaN then ''NaN'' else percent_f 2 (P r)) \<and>
            cell env r ''Distance'' =
              (if Distance r = NaN then ''NaN'' else percent_f 2 (Distance r)) \<and>
            (\<forall>v. P r = Num v \<longrightarrow> two_decimals (cell env r ''P'')) \<and>
            (\<forall>v. Distance r = Num v \<longrightarrow> two_decimals (cell env r ''Distance''))"
    by (simp add: cell_formatted two_decimals_percent_f na_rep_def)
  with h show "\<exists>center result.
         parse_equcoord_and_validate env (coordinates form) = Inr center \<and>
         Search_result env form center = Inr result \<and>
         html_table page =
           link_surveys (Surveys env) (table_markup env (map (row_cells env) result)) \<and>
         (\<forall>r \<in> set result.
            row_cells env r ! 3 = cell env r ''P'' \<and>
            row_cells env r ! 4 = cell env r ''Distance'' \<and>
            cell env r ''P'' = (if P r = NaN then ''NaN'' else percent_f 2 (P r)) \<and>
            cell env r ''Distance'' =
              (if Distance r = NaN then ''NaN'' else percent_f 2 (Distance r)) \<and>
            (\<forall>v. P r = Num v \<longrightarrow> two_decimals (cell env r ''P'')) \<and>
            (\<forall>v. Distance r = Num v \<longrightarrow> two_decimals (cell env r ''Distance'')))"
    unfolding to_html_def by blast
qed

theorem Search_finite_two_decimals_witness:
  "two_decimals (percent_f 2 (Num 245.97)) \<and>
   Search_result example_env gbncc_form (85.25, 23.5) = Inr [gbncc_row] \<and>
   P gbncc_row = Num 245.97 \<and> Distance gbncc_row = Num 1565.1 \<and>
   cell example_env gbncc_row ''P'' = ''245.97'' \<and>
   cell example_env gbncc_row ''Distance'' = ''1565.10'' \<and>
   two_decimals (cell example_env gbncc_row ''P'') \<and>
   two_decimals (cell example_env gbncc_row ''Distance'')"
proof -
  note t = Search_finite_two_decimals [where env = example_env and x = "245.97"
      and form = gbncc_form
      and tr = "[SearchCall (85.25, 23.5) \<lparr>magnitude = 1, deg_power = 1\<rparr> None None False]"
      and page = gbncc_page]
  from t have a: "two_decimals (percent_f 2 (Num 245.97))"
    by blast
  from t Search_example_page obtain center result where
    h: "parse_equcoord_and_validate example_env (coordinates gbncc_form) = Inr center"
       "Search_result example_env gbncc_form center = Inr result"
    and rows: "\<forall>r \<in> set result.
            row_cells example_env r ! 3 = cell example_env r ''P'' \<and>
            row_cells example_env r ! 4 = cell example_env r ''Distance'' \<and>
            cell example_env r ''P'' = (if P r = NaN then ''NaN'' else percent_f 2 (P r)) \<and>
            cell example_env r ''Distance'' =
              (if Distance r = NaN then ''NaN'' else percent_f 2 (Distance r)) \<and>
            (\<forall>v. P r = Num v \<longrightarrow> two_decimals (cell example_env r ''P'')) \<and>
            (\<forall>v. Distance r = Num v \<longrightarrow> two_decimals (cell example_env r ''Distance''))"
    by blast
  from h(1) have "center = (85.25, 23.5)"
    by (simp add: example_env_fields example_parse_gbncc)
  with h(2) Search_result_gbncc have "result = [gbncc_row]"
    by simp
  then have "gbncc_row \<in> set result"
    by simp
  note g = bspec [OF rows this]
  from g have p: "\<forall>v. P gbncc_row = Num v \<longrightarrow> two_decimals (cell example_env gbncc_row ''P'')"
    by blast
  have b1: "two_decimals (cell example_env gbncc_row ''P'')"
    by (rule p [rule_format, of "245.97"]) simp
  from g have d:
    "\<forall>v. Distance gbncc_row = Num v \<longrightarrow> two_decimals (cell example_env gbncc_row ''Distance'')"
    by blast
  have b2: "two_decimals (cell example_env gbncc_row ''Distance'')"
    by (rule d [rule_format, of "1565.1"]) simp
  from g have "cell example_env gbncc_row ''P'' =
      (if P gbncc_row = NaN then ''NaN'' else percent_f 2 (P gbncc_row))"
    by blast
  then have b3: "cell example_env gbncc_row ''P'' = percent_f 2 (Num 245.97)"
    by simp
  from g have "cell example_env gbncc_row ''Distance'' =
      (if Distance gbncc_row = NaN then ''NaN'' else percent_f 2 (Distance gbncc_row))"
    by blast
  then have b4: "cell example_env gbncc_row ''Distance'' = percent_f 2 (Num 1565.1)"
    by simp
  have c: "percent_f 2 (Num 245.97) = ''245.97''" "percent_f 2 (Num 1565.1) = ''1565.10''"
    by (simp_all add: percent_f_def format_f_2_P [simplified] format_f_2_Distance [simplified])
  from a b1 b2 b3 b4 c Search_result_gbncc show ?thesis
    by simp
qed

text \<open>
  The claim as it was stated fails for a row whose period is missing: the cell of the
  column \<open>P\<close> is \<^verbatim>\<open>NaN\<close>, which has no decimals.
\<close>

theorem Search_missing_period_counterexample:
  "Search example_env rrat_form =
     ([SearchCall (282.5, 15.25) \<lparr>magnitude = 1, deg_power = 1\<rparr> None None False],
      Inr (RenderSearch (Some rrat_page))) \<and>
   Search_result example_env rrat_form (282.5, 15.25) = Inr [rrat_row] \<and>
   row_cells example_env rrat_row ! 3 = ''NaN'' \<and>
   \<not> two_decimals ''NaN''"
  using Search_example_rrat Search_result_rrat row_cells_rrat not_two_decimals_NaN
  by (simp add: na_rep_def)

section \<open>The HTML table: links\<close>

lemma straddles_drop: "straddles name (drop k a) b \<Longrightarrow> straddles name a b"
proof (induction a arbitrary: k)
  case Nil
  then show ?case by simp
next
  case (Cons c a)
  show ?case
  proof (cases k)
    case 0
    with Cons.prems show ?thesis by simp
  next
    case (Suc j)
    with Cons.prems have "straddles name (drop j a) b" by simp
    then have "straddles name a b" by (rule Cons.IH)
    then show ?thesis by simp
  qed
qed

lemma str_replace_Nil: "old \<noteq> [] \<Longrightarrow> str_replace old new [] = []"
  by (simp add: str_replace.simps)

lemma str_replace_append:
  "name \<noteq> [] \<Longrightarrow> \<not> straddles name a b \<Longrightarrow>
   str_replace name new (a @ b) = str_replace name new a @ str_replace name new b"
proof (induction a rule: length_induct)
  case (1 a)
  show ?case
  proof (cases a)
    case Nil
    with "1.prems" show ?thesis by (simp add: str_replace_Nil)
  next
    case (Cons c a')
    from "1.prems"(2) Cons have ns: "\<not> straddles name a' b"
      and np: "\<not> (prefix name (c # a' @ b) \<and> length (c # a') < length name)"
      by simp_all
    show ?thesis
    proof (cases "prefix name (c # a' @ b)")
      case True
      with np have l: "length name \<le> length (c # a')"
        by simp
      from True have "prefix name ((c # a') @ b)"
        by simp
      then have pa: "prefix name (c # a')"
        using l by (rule prefix_short)
      have "\<not> straddles name (drop (length name) a) b"
        using "1.prems"(2) straddles_drop by blast
      moreover have "length (drop (length name) a) < length a"
        using "1.prems"(1) Cons by simp
      ultimately have ih: "str_replace name new (drop (length name) a @ b) =
          str_replace name new (drop (length name) a) @ str_replace name new b"
        using "1.IH" "1.prems"(1) by blast
      from l Cons have "length name \<le> length a"
        by simp
      then have d: "drop (length name) (a @ b) = drop (length name) a @ b"
        by simp
      have e1: "str_replace name new (a @ b) =
          new @ str_replace name new (drop (length name) (a @ b))"
        using True Cons "1.prems"(1) by (simp add: str_replace.simps [of name new "c # a' @ b"])
      have e2: "str_replace name new a = new @ str_replace name new (drop (length name) a)"
        using pa Cons "1.prems"(1) by (simp add: str_replace.simps [of name new "c # a'"])
      show ?thesis
        by (simp only: e1 e2 d ih append_assoc)
    next
      case False
      then have npa: "\<not> prefix name (c # a')"
        by (metis append_Cons prefix_prefix)
      have "length a' < length a"
        using Cons by simp
      with ns have ih: "str_replace name new (a' @ b) =
          str_replace name new a' @ str_replace name new b"
        using "1.IH" "1.prems"(1) by blast
      have "str_replace name new (a @ b) = c # str_replace name new (a' @ b)"
        using False Cons "1.prems"(1) by (simp add: str_replace.simps [of name new "c # a' @ b"])
      moreover have "str_replace name new a = c # str_replace name new a'"
        using npa Cons "1.prems"(1) by (simp add: str_replace.simps [of name new "c # a'"])
      ultimately show ?thesis
        using ih by simp
    qed
  qed
qed

lemma str_replace_concat:
  "name \<noteq> [] \<Longrightarrow> no_straddle name segs \<Longrightarrow>
   str_replace name new (concat segs) = concat (map (str_replace name new) segs)"
  by (induction segs) (simp_all add: str_replace_Nil str_replace_append)

lemma link_surveys_concat:
  "separable surveys segs \<Longrightarrow>
   link_surveys surveys (concat segs) = concat (map (link_surveys surveys) segs)"
proof (induction surveys arbitrary: segs)
  case Nil
  then show ?case by simp
next
  case (Cons s surveys)
  obtain name url where s: "s = (name, url)"
    by (cases s)
  from Cons.prems s have n: "name \<noteq> []" and ns: "no_straddle name segs"
    and sep: "separable surveys (map (str_replace name (survey_link url name)) segs)"
    by simp_all
  from n ns have "str_replace name (survey_link url name) (concat segs) =
      concat (map (str_replace name (survey_link url name)) segs)"
    by (rule str_replace_concat)
  with Cons.IH [OF sep] s show ?case
    by (simp add: comp_def)
qed

lemma str_replace_whole: "name \<noteq> [] \<Longrightarrow> str_replace name new name = new"
  by (simp add: str_replace.simps [of name new name] str_replace_Nil)

lemma link_surveys_free: "free_of_names surveys t \<Longrightarrow> link_surveys surveys t = t"
  by (rule link_surveys_absent) (simp add: free_of_names_def list_all_iff)

lemma link_surveys_cell:
  "linkable surveys c \<Longrightarrow>
   link_surveys surveys c =
     (case map_of surveys c of None \<Rightarrow> c | Some url \<Rightarrow> survey_link url c)"
proof (induction surveys)
  case Nil
  then show ?case by simp
next
  case (Cons s surveys)
  obtain name url where s: "s = (name, url)"
    by (cases s)
  show ?case
  proof (cases "c = name")
    case True
    with Cons.prems s have "name \<noteq> []" "free_of_names surveys (survey_link url name)"
      by simp_all
    then show ?thesis
      using True s by (simp add: str_replace_whole link_surveys_free)
  next
    case False
    with Cons.prems s have "name \<noteq> []" "\<not> sublist name c" "linkable surveys c"
      by simp_all
    then show ?thesis
      using False s Cons.IH by (simp add: str_replace_absent)
  qed
qed

lemma link_surveys_piece:
  "piece_ok surveys p \<Longrightarrow> link_surveys surveys (piece_text p) = linked_piece surveys p"
  by (cases p)
    (simp_all add: piece_ok_def piece_text_def linked_piece_def link_surveys_free
      link_surveys_cell)

lemma link_surveys_pieces:
  assumes "separable surveys (map piece_text pieces)" "list_all (piece_ok surveys) pieces"
  shows "link_surveys surveys (concat (map piece_text pieces)) =
         concat (map (linked_piece surveys) pieces)"
proof -
  have m: "map (link_surveys surveys) (map piece_text pieces) = map (linked_piece surveys) pieces"
    using assms(2) by (induction pieces) (simp_all add: link_surveys_piece)
  from link_surveys_concat [OF assms(1)] show ?thesis
    by (simp only: m)
qed

text \<open>
  Claim C9, as amended. Let the table of the search result be a text in pieces, the
  survey cells being the values of the survey column, such that the names of the
  configured surveys occur in it only as whole survey cells: the pieces are separable,
  every survey cell can be linked and the text between the survey cells is free of
  names. Then the table of the rendered Search page is that text with every survey cell
  that is a configured name replaced by the link to the survey's URL, and nothing else
  changed.
\<close>

theorem Search_survey_links:
  assumes "Search env form = (tr, Inr (RenderSearch (Some page)))"
    and "parse_equcoord_and_validate env (coordinates form) = Inr center"
    and "Search_result env form center = Inr result"
    and "to_html env result = concat (map piece_text pieces)"
    and "survey_cells pieces = map (\<lambda>r. cell env r ''survey'') result"
    and "separable (Surveys env) (map piece_text pieces)"
    and "list_all (piece_ok (Surveys env)) pieces"
  shows "html_table page = concat (map (linked_piece (Surveys env)) pieces)"
proof -
  from assms(1) obtain center' result' where
    h: "parse_equcoord_and_validate env (coordinates form) = Inr center'"
       "Search_result env form center' = Inr result'"
       "html_table page = link_surveys (Surveys env) (to_html env result')"
    using Search_page_result [of env form tr page] by blast
  from h(1) assms(2) have "center' = center"
    by simp
  with h(2) assms(3) have "result' = result"
    by simp
  with h(3) assms(4) have "html_table page =
      link_surveys (Surveys env) (concat (map piece_text pieces))"
    by simp
  with link_surveys_pieces [OF assms(6) assms(7)] show ?thesis
    by simp
qed

theorem Search_survey_links_witness:
  "Search example_env rrat_form =
     ([SearchCall (282.5, 15.25) \<lparr>magnitude = 1, deg_power = 1\<rparr> None None False],
      Inr (RenderSearch (Some rrat_page))) \<and>
   Search_result example_env rrat_form (282.5, 15.25) = Inr [rrat_row] \<and>
   to_html example_env [rrat_row] = concat (map piece_text rrat_pieces) \<and>
   survey_cells rrat_pieces = map (\<lambda>r. cell example_env r ''survey'') [rrat_row] \<and>
   separable (Surveys example_env) (map piece_text rrat_pieces) \<and>
   list_all (piece_ok (Surveys example_env)) rrat_pieces \<and>
   html_table rrat_page = concat (map (linked_piece (Surveys example_env)) rrat_pieces) \<and>
   map (linked_piece (Surveys example_env)) rrat_pieces =
     [''<table><tr><td>J1850+15</td><td>282.50 15.25</td><td>24.500000</td>'' @
      ''<td>NaN</td><td>1250.00</td><td>0.000000</td><td>'',
      survey_link ''https://www.atnf.csiro.au/research/pulsar/psrcat/'' ''ATNF'',
      ''</td></tr></table>'']"
proof -
  have p: "parse_equcoord_and_validate example_env (coordinates rrat_form) =
      Inr (282.5, 15.25)"
    by (simp add: example_env_fields example_parse_rrat)
  have t: "to_html example_env [rrat_row] = concat (map piece_text rrat_pieces)"
    using row_cells_rrat
    by (simp add: to_html_def example_env_fields example_markup_def piece_text_def)
  have c: "survey_cells rrat_pieces = map (\<lambda>r. cell example_env r ''survey'') [rrat_row]"
    by (simp add: survey_cells_def cell_def)
  have s: "separable (Surveys example_env) (map piece_text rrat_pieces)"
    by (simp add: example_env_table_fields piece_text_def str_replace.simps survey_link_def
        quote_def)
  have k: "list_all (piece_ok (Surveys example_env)) rrat_pieces"
    by (simp add: example_env_table_fields piece_ok_def free_of_names_def sublist_code)
  have l: "map (linked_piece (Surveys example_env)) rrat_pieces =
     [''<table><tr><td>J1850+15</td><td>282.50 15.25</td><td>24.500000</td>'' @
      ''<td>NaN</td><td>1250.00</td><td>0.000000</td><td>'',
      survey_link ''https://www.atnf.csiro.au/research/pulsar/psrcat/'' ''ATNF'',
      ''</td></tr></table>'']"
    by (simp add: example_env_table_fields linked_piece_def)
  have "html_table rrat_page = concat (map (linked_piece (Surveys example_env)) rrat_pieces)"
    by (rule Search_survey_links [OF Search_example_rrat p Search_result_rrat t c s k])
  with Search_example_rrat Search_result_rrat t c s k l show ?thesis
    by blast
qed

text \<open>
  The claim as it was stated fails for text outside the survey column that contains a
  survey's name: the name of the pulsar "GBNCC J0540+23" becomes a link as well.
\<close>

theorem Search_links_counterexample:
  "row_cells example_env gbncc_row =
     [''GBNCC J0540+23'', ''85.25 23.50'', ''NaN'', ''245.97'', ''1565.10'', ''0.000000'',
      ''GBNCC''] \<and>
   Search example_env gbncc_form =
     ([SearchCall (85.25, 23.5) \<lparr>magnitude = 1, deg_power = 1\<rparr> None None False],
      Inr (RenderSearch (Some
        \<lparr>coord_string = ''Searching 1.0deg around RA,Dec 85.25 23.50 = 85.25d,+23.50d ...'',
         nfound = 1,
         html_table =
           example_markup
             [[survey_link ''http://astro.phys.wvu.edu/GBNCC/'' ''GBNCC'' @ '' J0540+23'',
               ''85.25 23.50'', ''NaN'', ''245.97'', ''1565.10'', ''0.000000'',
               survey_link ''http://astro.phys.wvu.edu/GBNCC/'' ''GBNCC'']]\<rparr>)))"
  using row_cells_gbncc Search_example_page by (rule conjI)

text \<open>
  The condition on the survey cells is needed. Were one survey's name part of another's,
  the later replacement would rewrite the link made by the earlier one.
\<close>

lemma link_surveys_nested_names:
  "link_surveys [(''GBNCC'', ''http://a/''), (''GBN'', ''http://b/'')] ''<td>GBNCC</td>'' =
     ''<td><a href='' @ quote @ ''http://a/'' @ quote @ ''>'' @
     survey_link ''http://b/'' ''GBN'' @ ''CC</a></td>'' \<and>
   \<not> linkable [(''GBNCC'', ''http://a/''), (''GBN'', ''http://b/'')] ''GBNCC''"
  by (simp add: survey_link_def quote_def str_replace.simps free_of_names_def sublist_code)

end
